theory Spec2Isabelle
  imports Main
begin

section \<open>The ASL lowering engine of functionless: data model\<close>

text \<open>
  The development embeds parts of \<^verbatim>\<open>packages/@functionless/asl/src/asl.ts\<close>:
  the condition builders of the \<^verbatim>\<open>ASL\<close> namespace, the state-name allocator, the
  error router \<^verbatim>\<open>ASL.throw\<close> with the \<^verbatim>\<open>throw\<close> and \<^verbatim>\<open>try\<close> cases of
  \<^verbatim>\<open>evalStmt\<close>, the arithmetic helpers \<^verbatim>\<open>plus\<close>, \<^verbatim>\<open>stringConcat\<close>,
  \<^verbatim>\<open>numericAdd\<close> and \<^verbatim>\<open>negateJsonPathOrLiteralValue\<close>, and
  \<^verbatim>\<open>filterToJsonPath\<close>.

  JSON values. A JavaScript number is modelled by an integer: no claim below depends on
  fractions, on \<^verbatim>\<open>NaN\<close> or on the sign of zero.
\<close>

datatype json =
    JNull
  | JBool bool
  | JNum int
  | JStr string
  | JArr "json list"
  | JObj "(string \<times> json) list"

subsection \<open>Conditions (the \<^verbatim>\<open>Condition\<close> interface of \<^verbatim>\<open>./states\<close>)\<close>

text \<open>
  A \<^verbatim>\<open>Condition\<close> object is either a combinator (\<^verbatim>\<open>{And: [...]}\<close>,
  \<^verbatim>\<open>{Or: [...]}\<close>, \<^verbatim>\<open>{Not: c}\<close>) or an atom \<^verbatim>\<open>{Variable: v, [key]: value}\<close>.
  The key of an atom is kept as a string, since \<^verbatim>\<open>compareValueOfType\<close> and
  \<^verbatim>\<open>comparePathOfType\<close> compute it.
\<close>

datatype Condition =
    CAnd "Condition list"
  | COr "Condition list"
  | CNot Condition
  | Atom (Variable: string) (key: string) (val: json)



definition isNotPresent :: "string \<Rightarrow> Condition" where
  "isNotPresent v = Atom v ''IsPresent'' (JBool False)"

definition isNull :: "string \<Rightarrow> Condition" where
  "isNull v = Atom v ''IsNull'' (JBool True)"

definition isNotNull :: "string \<Rightarrow> Condition" where
  "isNotNull v = Atom v ''IsNull'' (JBool False)"

definition isBoolean :: "string \<Rightarrow> Condition" where
  "isBoolean v = Atom v ''IsBoolean'' (JBool True)"

definition isString :: "string \<Rightarrow> Condition" where
  "isString v = Atom v ''IsString'' (JBool True)"

definition isNumeric :: "string \<Rightarrow> Condition" where
  "isNumeric v = Atom v ''IsNumeric'' (JBool True)"

definition falseCondition :: Condition where
  "falseCondition = isNull ''$$.Execution.Id''"

definition trueCondition :: Condition where
  "trueCondition = isNotNull ''$$.Execution.Id''"

text \<open>
  \<^verbatim>\<open>and(...cond)\<close> and \<^verbatim>\<open>or(...cond)\<close> take \<^verbatim>\<open>Condition | undefined\<close>
  arguments and first drop the undefined ones (\<^verbatim>\<open>cond.filter((c) => !!c)\<close>; a
  condition is an object, hence truthy).
\<close>

definition defined_conds :: "Condition option list \<Rightarrow> Condition list" where
  "defined_conds cond = List.map_filter (\<lambda>c. c) cond"

definition ASL_and :: "Condition option list \<Rightarrow> Condition" where
  "ASL_and cond =
     (let conds = defined_conds cond in
      if length conds > 1 then CAnd conds
      else if length conds = 0 then trueCondition
      else hd conds)"

definition ASL_or :: "Condition option list \<Rightarrow> Condition" where
  "ASL_or cond =
     (let conds = defined_conds cond in
      if length conds > 1 then COr conds
      else if length conds = 0 then falseCondition
      else hd conds)"


definition stringEquals :: "string \<Rightarrow> string \<Rightarrow> Condition" where
  "stringEquals v s = CAnd [isString v, Atom v ''StringEquals'' (JStr s)]"



definition booleanEquals :: "string \<Rightarrow> bool \<Rightarrow> Condition" where
  "booleanEquals v b = Atom v ''BooleanEquals'' (JBool b)"


subsection \<open>The comparison table\<close>

datatype ValueComparisonOperators =
    OpEqEqEq | OpEqEq | OpGt | OpGtEq | OpLtEq | OpLt | OpNotEq | OpNotEqEq

datatype value_type = TString | TBoolean | TNumber

text \<open>\<^verbatim>\<open>VALUE_COMPARISONS[operation][type]\<close>; \<open>None\<close> is the table's \<^verbatim>\<open>undefined\<close>.\<close>

fun VALUE_COMPARISONS :: "ValueComparisonOperators \<Rightarrow> value_type \<Rightarrow> string option" where
  "VALUE_COMPARISONS OpEqEq TString = Some ''StringEquals''"
| "VALUE_COMPARISONS OpEqEq TBoolean = Some ''BooleanEquals''"
| "VALUE_COMPARISONS OpEqEq TNumber = Some ''NumericEquals''"
| "VALUE_COMPARISONS OpEqEqEq TString = Some ''StringEquals''"
| "VALUE_COMPARISONS OpEqEqEq TBoolean = Some ''BooleanEquals''"
| "VALUE_COMPARISONS OpEqEqEq TNumber = Some ''NumericEquals''"
| "VALUE_COMPARISONS OpLt TString = Some ''StringLessThan''"
| "VALUE_COMPARISONS OpLt TBoolean = None"
| "VALUE_COMPARISONS OpLt TNumber = Some ''NumericLessThan''"
| "VALUE_COMPARISONS OpLtEq TString = Some ''StringLessThanEquals''"
| "VALUE_COMPARISONS OpLtEq TBoolean = None"
| "VALUE_COMPARISONS OpLtEq TNumber = Some ''NumericLessThanEquals''"
| "VALUE_COMPARISONS OpGt TString = Some ''StringGreaterThan''"
| "VALUE_COMPARISONS OpGt TBoolean = None"
| "VALUE_COMPARISONS OpGt TNumber = Some ''NumericGreaterThan''"
| "VALUE_COMPARISONS OpGtEq TString = Some ''StringGreaterThanEquals''"
| "VALUE_COMPARISONS OpGtEq TBoolean = None"
| "VALUE_COMPARISONS OpGtEq TNumber = Some ''NumericGreaterThanEquals''"
| "VALUE_COMPARISONS OpNotEq _ = None"
| "VALUE_COMPARISONS OpNotEqEq _ = None"

text \<open>
  The compared value of \<^verbatim>\<open>compareValueOfType\<close> has the TypeScript type
  \<^verbatim>\<open>string | number | boolean\<close>; \<open>typeof_value\<close> is JavaScript's \<^verbatim>\<open>typeof\<close>
  on it.
\<close>

datatype compared_value = VString string | VNumber int | VBoolean bool

fun typeof_value :: "compared_value \<Rightarrow> value_type" where
  "typeof_value (VString _) = TString"
| "typeof_value (VNumber _) = TNumber"
| "typeof_value (VBoolean _) = TBoolean"

fun json_of_value :: "compared_value \<Rightarrow> json" where
  "json_of_value (VString s) = JStr s"
| "json_of_value (VNumber n) = JNum n"
| "json_of_value (VBoolean b) = JBool b"

definition compareValueOfType ::
  "string \<Rightarrow> ValueComparisonOperators \<Rightarrow> compared_value \<Rightarrow> Condition" where
  "compareValueOfType v operation value =
     (case VALUE_COMPARISONS operation (typeof_value value) of
        None \<Rightarrow> falseCondition
      | Some comparison \<Rightarrow> Atom v comparison (json_of_value value))"

definition comparePathOfType ::
  "string \<Rightarrow> ValueComparisonOperators \<Rightarrow> string \<Rightarrow> value_type \<Rightarrow> Condition" where
  "comparePathOfType v operation path ty =
     (case VALUE_COMPARISONS operation ty of
        None \<Rightarrow> falseCondition
      | Some comparison \<Rightarrow> Atom v (comparison @ ''Path'') (JStr path))"

subsection \<open>What a condition evaluates to\<close>

text \<open>
  The specification speaks of a condition being "trivially true", "trivially false" or
  the conjunction of others. That is the meaning Step Functions gives a Choice rule; it
  is fixed here for the atoms the builders above emit, over a document that maps a
  path to the JSON value found there (\<open>None\<close> when the path is absent). A type test or
  a comparison on an absent path does not hold.
\<close>

fun is_JBool :: "json option \<Rightarrow> bool" where
  "is_JBool (Some (JBool _)) = True"
| "is_JBool _ = False"

fun is_JStr :: "json option \<Rightarrow> bool" where
  "is_JStr (Some (JStr _)) = True"
| "is_JStr _ = False"

fun is_JNum :: "json option \<Rightarrow> bool" where
  "is_JNum (Some (JNum _)) = True"
| "is_JNum _ = False"

fun atom_holds :: "json option \<Rightarrow> string \<Rightarrow> json \<Rightarrow> bool" where
  "atom_holds x k (JBool b) =
     (if k = ''IsPresent'' then b = (x \<noteq> None)
      else if k = ''IsNull'' then x \<noteq> None \<and> b = (x = Some JNull)
      else if k = ''IsBoolean'' then x \<noteq> None \<and> b = is_JBool x
      else if k = ''IsString'' then x \<noteq> None \<and> b = is_JStr x
      else if k = ''IsNumeric'' then x \<noteq> None \<and> b = is_JNum x
      else if k = ''BooleanEquals'' then x = Some (JBool b)
      else False)"
| "atom_holds x k (JStr s) = (k = ''StringEquals'' \<and> x = Some (JStr s))"
| "atom_holds x k (JNum n) = (k = ''NumericEquals'' \<and> x = Some (JNum n))"
| "atom_holds x k _ = False"

fun holds :: "(string \<Rightarrow> json option) \<Rightarrow> Condition \<Rightarrow> bool" where
  "holds doc (CAnd cs) = (\<forall>c \<in> set cs. holds doc c)"
| "holds doc (COr cs) = (\<exists>c \<in> set cs. holds doc c)"
| "holds doc (CNot c) = (\<not> holds doc c)"
| "holds doc (Atom v k x) = atom_holds (doc v) k x"

subsection \<open>The state-name allocator\<close>

text \<open>
  The decimal rendering of a counter inside a template literal (\<^verbatim>\<open>`${name} ${n}`\<close>).
\<close>

fun digit_char :: "nat \<Rightarrow> char" where
  "digit_char n = ''0123456789'' ! n"

fun show_nat :: "nat \<Rightarrow> string" where
  "show_nat n =
     (if n < 10 then [digit_char n]
      else show_nat (n div 10) @ [digit_char (n mod 10)])"

declare show_nat.simps [simp del]

text \<open>
  The formatter handed to \<^verbatim>\<open>stateNamesGenerator\<close>:
  \<^verbatim>\<open>new UniqueNameGenerator((name, n) => `${name} ${n}`)\<close>.
\<close>

definition stateFormatName :: "string \<Rightarrow> nat \<Rightarrow> string" where
  "stateFormatName name n = name @ '' '' @ show_nat n"

text \<open>
  Modelled from the spec: the class \<^verbatim>\<open>UniqueNameGenerator\<close> is imported from
  \<^verbatim>\<open>@functionless/ast\<close> and is outside the embedded sources. The specification
  says of it: "if unseen, register; else append N with the smallest unused N. The
  truncated form and all suffixed forms are memoized to avoid re-collision." The generator
  is its list of memoized names; \<open>nextUnused\<close> is the search for the smallest unused
  number, counting from 1 as in \<^verbatim>\<open>a\<close>, \<^verbatim>\<open>a__1\<close>, \<^verbatim>\<open>a__2\<close> of the
  comment on \<^verbatim>\<open>getDeclarationName\<close>. The search is a loop that need not end for an
  arbitrary formatter, so it returns an option.
\<close>

partial_function (option) nextUnused ::
  "(string \<Rightarrow> nat \<Rightarrow> string) \<Rightarrow> string list \<Rightarrow> string \<Rightarrow> nat \<Rightarrow> nat option" where
  "nextUnused formatName names name n =
     (if formatName name n \<in> set names then nextUnused formatName names name (n + 1)
      else Some n)"

definition getUnique ::
  "(string \<Rightarrow> nat \<Rightarrow> string) \<Rightarrow> string list \<Rightarrow> string \<Rightarrow> (string \<times> string list) option" where
  "getUnique formatName names name =
     (if name \<notin> set names then Some (name, name # names)
      else case nextUnused formatName names name 1 of
             None \<Rightarrow> None
           | Some n \<Rightarrow> Some (formatName name n, formatName name n # names))"

text \<open>
  \<^verbatim>\<open>createUniqueStateName\<close>, with the generator passed in and returned.
\<close>

definition createUniqueStateName :: "string list \<Rightarrow> string \<Rightarrow> (string \<times> string list) option" where
  "createUniqueStateName names stateName =
     (let truncatedStateName = (if length stateName > 75 then take 75 stateName else stateName)
      in getUnique stateFormatName names truncatedStateName)"

text \<open>The names handed out for a sequence of requests during one compilation.\<close>

fun createUniqueStateNames ::
  "string list \<Rightarrow> string list \<Rightarrow> (string list \<times> string list) option" where
  "createUniqueStateNames names [] = Some ([], names)"
| "createUniqueStateNames names (s # ss) =
     (case createUniqueStateName names s of
        None \<Rightarrow> None
      | Some (r, names') \<Rightarrow>
          (case createUniqueStateNames names' ss of
             None \<Rightarrow> None
           | Some (rs, names'') \<Rightarrow> Some (r # rs, names'')))"

subsection \<open>The graph model (\<^verbatim>\<open>./asl-graph\<close> and \<^verbatim>\<open>./states\<close>)\<close>

text \<open>
  An expression output (\<^verbatim>\<open>ASLGraph.Output\<close>) is a JSON path, a literal value with
  its \<^verbatim>\<open>containsJsonPath\<close> flag, or a condition. Many functions take the union
  \<^verbatim>\<open>ASLGraph.JsonPath | ASLGraph.LiteralValue\<close> only, which is a type of its own here.
\<close>

datatype JsonPathOrLiteral =
    JsonPath string
  | LiteralValue json bool

datatype Output =
    Value JsonPathOrLiteral
  | ConditionOutput Condition

fun isLiteralValue :: "JsonPathOrLiteral \<Rightarrow> bool" where
  "isLiteralValue (LiteralValue _ _) = True"
| "isLiteralValue (JsonPath _) = False"

fun isLiteralString :: "JsonPathOrLiteral \<Rightarrow> bool" where
  "isLiteralString (LiteralValue (JStr _) _) = True"
| "isLiteralString _ = False"

definition literalValue :: "json \<Rightarrow> JsonPathOrLiteral" where
  "literalValue v = LiteralValue v False"

text \<open>
  Modelled from the spec: the intrinsic constructors \<^verbatim>\<open>ASLGraph.intrinsicFormat\<close>,
  \<^verbatim>\<open>intrinsicStringSplit\<close>, ... of \<^verbatim>\<open>./asl-graph\<close>, which lies outside the
  embedded sources: "typed algebraic constructors for each supported intrinsic; arguments may
  themselves be intrinsics, JSON paths, or literals". An intrinsic stays a term; its
  rendering to a string is not modelled.
\<close>

datatype intrinsic =
    IntrinsicFormat string "intrinsic list"
  | IntrinsicStringSplit intrinsic intrinsic
  | IntrinsicStringToJson intrinsic
  | IntrinsicJsonToString intrinsic
  | IntrinsicArrayGetItem intrinsic intrinsic
  | IntrinsicMathAdd intrinsic intrinsic
  | Arg JsonPathOrLiteral

text \<open>
  The successor of a state: a label, or the sentinel \<^verbatim>\<open>ASLGraph.DeferNext\<close>, whose
  spelling the embedded sources do not show.
\<close>

datatype "next" = DeferNext | Label string

text \<open>
  \<^verbatim>\<open>Parameters\<close> of a \<^verbatim>\<open>Pass\<close> state: the one-key object
  \<^verbatim>\<open>{"<property>.$": <intrinsic or path>}\<close>, or a literal object.
\<close>

datatype parameters =
    ParamAssign string intrinsic
  | ParamObject json

text \<open>
  The states. A field that is absent is \<open>None\<close>; \<^verbatim>\<open>ResultPath: null\<close> is
  \<open>Some None\<close>. The back-reference \<^verbatim>\<open>node\<close> to the syntax tree, which only names
  states when the graph is flattened, is left out.
\<close>

record Pass =
  InputPath :: "string option"
  Parameters :: "parameters option"
  Result :: "json option"
  ResultPath :: "string option option"
  Next :: "next option"
  End :: bool

definition Pass0 :: Pass where
  "Pass0 = \<lparr>InputPath = None, Parameters = None, Result = None, ResultPath = None,
            Next = None, End = False\<rparr>"

record Choice =
  Choices :: "(Condition \<times> next) list"
  Default :: "next"

record Fail =
  Error :: string
  Cause :: string

datatype state = PassState Pass | ChoiceState Choice | FailState Fail

text \<open>
  Modelled from the spec: \<^verbatim>\<open>ASLGraph.joinSubStates\<close> of \<^verbatim>\<open>./asl-graph\<close>, outside
  the embedded sources: it "concatenates ordered sub-states into one; each's
  deferred-next is rewired to the next's startState; the last one's deferred-next is left
  deferred". The concatenation is kept as the node \<open>Joined\<close> over the sub-states in
  order. Arguments that are undefined or bare outputs are dropped, and with none left
  the result is undefined, as the callers' \<^verbatim>\<open>??\<close> and \<^verbatim>\<open>joined ? ... : ...\<close> show.
\<close>

datatype graph =
    State state
  | SubState (startState: string) (states: "(string \<times> graph) list")
  | Joined "graph list"

definition joinSubStates :: "graph option list \<Rightarrow> graph option" where
  "joinSubStates subStates =
     (case List.map_filter (\<lambda>x. x) subStates of
        [] \<Rightarrow> None
      | realStates \<Rightarrow> Some (Joined realStates))"

text \<open>
  \<^verbatim>\<open>ASLGraph.NodeResults\<close>: a bare output, or a state or sub-state carrying its
  \<^verbatim>\<open>output\<close>. A result of type
  \<^verbatim>\<open>(OutputState | OutputSubState) & {output: JsonPath}\<close> is a pair of the graph and
  the path; \<open>withOutput\<close> reads it as a \<^verbatim>\<open>NodeResults\<close>.
\<close>

datatype NodeResults =
    Bare Output
  | OutputState graph Output

fun getAslStateOutput :: "NodeResults \<Rightarrow> Output" where
  "getAslStateOutput (Bare out) = out"
| "getAslStateOutput (OutputState _ out) = out"

definition withOutput :: "graph \<times> string \<Rightarrow> NodeResults" where
  "withOutput r = OutputState (fst r) (Value (JsonPath (snd r)))"

fun stateOrSubState :: "NodeResults \<Rightarrow> graph option" where
  "stateOrSubState (Bare _) = None"
| "stateOrSubState (OutputState g _) = Some g"

text \<open>
  Modelled from the spec: \<^verbatim>\<open>ASLGraph.assignJsonPathOrIntrinsic\<close> of
  \<^verbatim>\<open>./asl-graph\<close>. Its result is the one documented on the method
  \<^verbatim>\<open>ASL.assignJsonPathOrIntrinsic\<close> that wraps it: a \<^verbatim>\<open>Pass\<close> with
  \<^verbatim>\<open>Parameters: {"<property>.$": <value>}\<close>, the given \<^verbatim>\<open>Next\<close> (deferred by
  default), \<^verbatim>\<open>ResultPath\<close> the given location, and output
  \<^verbatim>\<open><location>.<property>\<close>.
\<close>

definition ASLGraph_assignJsonPathOrIntrinsic ::
  "intrinsic \<Rightarrow> string \<Rightarrow> string \<Rightarrow> next \<Rightarrow> graph \<times> string" where
  "ASLGraph_assignJsonPathOrIntrinsic jsonPathOrIntrinsic resultPath propertyName nxt =
     (State (PassState (Pass0\<lparr>Parameters := Some (ParamAssign (propertyName @ ''.$'') jsonPathOrIntrinsic),
                                Next := Some nxt,
                                ResultPath := Some (Some resultPath)\<rparr>)),
      resultPath @ ''.'' @ propertyName)"

text \<open>
  Modelled from the spec: \<^verbatim>\<open>ASLGraph.passWithInput\<close> of \<^verbatim>\<open>./asl-graph\<close>: it "fills
  a Pass state's InputPath (for paths) or Result/Parameters (for literals), preserving
  the containsJsonPath bit (literals with embedded paths must use Parameters)". Its
  callers hand it no condition; the state is returned as it is for one.
\<close>

fun passWithInput :: "Pass \<Rightarrow> Output \<Rightarrow> Pass" where
  "passWithInput pass (Value (JsonPath path)) = pass\<lparr>InputPath := Some path\<rparr>"
| "passWithInput pass (Value (LiteralValue v False)) = pass\<lparr>Result := Some v\<rparr>"
| "passWithInput pass (Value (LiteralValue v True)) = pass\<lparr>Parameters := Some (ParamObject v)\<rparr>"
| "passWithInput pass (ConditionOutput _) = pass"

subsection \<open>The host language\<close>

text \<open>
  The compiler runs JavaScript built-ins on literal values at compile time:
  \<^verbatim>\<open>Number(v)\<close>, the sum of two numbers, \<^verbatim>\<open>String(v)\<close> (also the conversion
  inside a template literal) and \<^verbatim>\<open>JSON.stringify(v)\<close>. Their values
  (floating point, \<^verbatim>\<open>NaN\<close>, the numeric grammar of strings, string escapes) are not
  modelled: the functions below take them as a parameter, and every theorem holds for
  every host.
\<close>

record host =
  js_Number :: "json \<Rightarrow> json"
  js_add :: "json \<Rightarrow> json \<Rightarrow> json"
  js_String :: "json \<Rightarrow> string"
  JSON_stringify :: "json \<Rightarrow> string"

text \<open>
  A host on integers, to evaluate examples: \<^verbatim>\<open>Number\<close> of a number, a boolean and
  \<^verbatim>\<open>null\<close>; \<^verbatim>\<open>String\<close>; \<^verbatim>\<open>JSON.stringify\<close> of values whose strings need no
  escape. Where JavaScript gives \<^verbatim>\<open>NaN\<close> this host gives \<^verbatim>\<open>null\<close>.
\<close>

fun int_Number :: "json \<Rightarrow> json" where
  "int_Number (JNum n) = JNum n"
| "int_Number (JBool b) = JNum (if b then 1 else 0)"
| "int_Number JNull = JNum 0"
| "int_Number _ = JNull"

fun int_add :: "json \<Rightarrow> json \<Rightarrow> json" where
  "int_add (JNum a) (JNum b) = JNum (a + b)"
| "int_add _ _ = JNull"

text \<open>The decimal text of an integer, with its sign.\<close>

definition show_int :: "int \<Rightarrow> string" where
  "show_int i = (case i < 0 of True \<Rightarrow> CHR ''-'' # show_nat (nat (- i)) | False \<Rightarrow> show_nat (nat i))"

fun intercalate :: "string \<Rightarrow> string list \<Rightarrow> string" where
  "intercalate sep [] = []"
| "intercalate sep [x] = x"
| "intercalate sep (x # y # ys) = x @ sep @ intercalate sep (y # ys)"

fun plain_stringify :: "json \<Rightarrow> string" where
  "plain_stringify JNull = ''null''"
| "plain_stringify (JBool b) = (if b then ''true'' else ''false'')"
| "plain_stringify (JNum n) = show_int n"
| "plain_stringify (JStr s) = [CHR 0x22] @ s @ [CHR 0x22]"
| "plain_stringify (JArr xs) = ''['' @ intercalate '','' (map plain_stringify xs) @ '']''"
| "plain_stringify (JObj kvs) =
     ''{'' @ intercalate '',''
              (map (\<lambda>(k, v). [CHR 0x22] @ k @ [CHR 0x22] @ '':'' @ plain_stringify v) kvs) @ ''}''"

fun plain_String :: "json \<Rightarrow> string" where
  "plain_String JNull = ''null''"
| "plain_String (JBool b) = (if b then ''true'' else ''false'')"
| "plain_String (JNum n) = show_int n"
| "plain_String (JStr s) = s"
| "plain_String (JArr xs) =
     intercalate '','' (map (\<lambda>x. if x = JNull then [] else plain_String x) xs)"
| "plain_String (JObj kvs) = ''[object Object]''"

definition int_host :: host where
  "int_host = \<lparr>js_Number = int_Number, js_add = int_add, js_String = plain_String,
                JSON_stringify = plain_stringify\<rparr>"

subsection \<open>Heap slots and assignments\<close>

text \<open>
  \<^verbatim>\<open>newHeapVariable\<close>: the mutable \<^verbatim>\<open>heapCounter\<close> is passed in and returned by
  every function that allocates.
\<close>

definition newHeapVariable :: "nat \<Rightarrow> string \<times> nat" where
  "newHeapVariable heapCounter = (''$.heap'' @ show_nat heapCounter, heapCounter + 1)"

text \<open>
  Modelled from the spec: \<^verbatim>\<open>this.context.null\<close> is
  \<^verbatim>\<open>`${FUNCTIONLESS_CONTEXT_JSON_PATH}.null`\<close>; the constant is declared in
  \<^verbatim>\<open>./constants\<close>, outside the embedded sources, and the specification gives the
  path as \<^verbatim>\<open>$.fnl_context.null\<close>.
\<close>

definition context_null :: string where
  "context_null = ''$.fnl_context.null''"

text \<open>
  \<^verbatim>\<open>conditionState\<close> and \<^verbatim>\<open>assignValue\<close> call each other: assigning a condition
  builds a condition state, whose two branches assign the literals true and false.
  \<open>the\<close> renders the non-null assertion \<^verbatim>\<open>!\<close> on a join that has a state among its
  arguments.
\<close>

function conditionState ::
    "nat \<Rightarrow> Condition \<Rightarrow> NodeResults option \<Rightarrow> NodeResults option \<Rightarrow> string option
       \<Rightarrow> (graph \<times> string) \<times> nat"
  and assignValue :: "nat \<Rightarrow> Output \<Rightarrow> string option \<Rightarrow> (graph \<times> string) \<times> nat"
where
  "conditionState h cond trueState falseState outputJsonPath =
     (let trueOutput = (case trueState of
                          Some t \<Rightarrow> getAslStateOutput t
                        | None \<Rightarrow> Value (LiteralValue (JBool True) False));
          falseOutput = (case falseState of
                           Some f \<Rightarrow> getAslStateOutput f
                         | None \<Rightarrow> Value (LiteralValue (JBool False) False));
          th = (case outputJsonPath of Some path \<Rightarrow> (path, h) | None \<Rightarrow> newHeapVariable h);
          tempHeap = fst th;
          ta = (if trueOutput = Value (JsonPath tempHeap)
                then (State (PassState (Pass0\<lparr>Next := Some DeferNext\<rparr>)), snd th)
                else (fst (fst (assignValue (snd th) trueOutput (Some tempHeap))),
                      snd (assignValue (snd th) trueOutput (Some tempHeap))));
          fa = (if falseOutput = Value (JsonPath tempHeap)
                then (State (PassState (Pass0\<lparr>Next := Some DeferNext\<rparr>)), snd ta)
                else (fst (fst (assignValue (snd ta) falseOutput (Some tempHeap))),
                      snd (assignValue (snd ta) falseOutput (Some tempHeap))))
      in ((SubState ''default''
             [(''default'',
               State (ChoiceState \<lparr>Choices = [(cond, Label ''true'')], Default = Label ''false''\<rparr>)),
              (''true'',
               the (joinSubStates
                      [case trueState of Some t \<Rightarrow> stateOrSubState t | None \<Rightarrow> None,
                       Some (fst ta)])),
              (''false'',
               the (joinSubStates
                      [case falseState of Some f \<Rightarrow> stateOrSubState f | None \<Rightarrow> None,
                       Some (fst fa)]))],
           tempHeap),
          snd fa))"
| "assignValue h value targetJsonPath =
     (case value of
        ConditionOutput c \<Rightarrow> conditionState h c None None targetJsonPath
      | Value v \<Rightarrow>
          (let tg = (case targetJsonPath of Some path \<Rightarrow> (path, h) | None \<Rightarrow> newHeapVariable h)
           in ((State (PassState
                  (passWithInput (Pass0\<lparr>Next := Some DeferNext, ResultPath := Some (Some (fst tg))\<rparr>)
                                 value)),
                fst tg),
               snd tg)))"
  by pat_completeness auto
termination
  by (relation "measure (\<lambda>x. case x of
          Inl (h, c, t, f, p) \<Rightarrow>
            1 + (case t of Some r \<Rightarrow> (case getAslStateOutput r of ConditionOutput _ \<Rightarrow> 2 | _ \<Rightarrow> 0)
                 | None \<Rightarrow> 0)
              + (case f of Some r \<Rightarrow> (case getAslStateOutput r of ConditionOutput _ \<Rightarrow> 2 | _ \<Rightarrow> 0)
                 | None \<Rightarrow> 0)
        | Inr (h, v, p) \<Rightarrow> (case v of ConditionOutput _ \<Rightarrow> 2 | _ \<Rightarrow> 0))")
     (auto split: option.splits Output.splits)

subsection \<open>Coercions of a JSON path\<close>

text \<open>\<^verbatim>\<open>jsonPathValueToString\<close>; \<open>path\<close> is \<^verbatim>\<open>jsonPath.jsonPath\<close>.\<close>

definition jsonPathValueToString :: "nat \<Rightarrow> string \<Rightarrow> string option \<Rightarrow> (graph \<times> string) \<times> nat" where
  "jsonPathValueToString h path resultPath =
     (let hp = (case resultPath of Some r \<Rightarrow> (r, h) | None \<Rightarrow> newHeapVariable h);
          heap = fst hp
      in ((SubState ''checkString''
             [(''checkString'',
               State (ChoiceState \<lparr>Choices = [(isString path, Label ''assign'')],
                                   Default = Label ''format''\<rparr>)),
              (''format'',
               fst (ASLGraph_assignJsonPathOrIntrinsic
                      (IntrinsicJsonToString (Arg (JsonPath path))) heap ''str'' DeferNext)),
              (''assign'',
               State (PassState (Pass0\<lparr>InputPath := Some path,
                                        ResultPath := Some (Some (heap @ ''.str'')),
                                        Next := Some DeferNext\<rparr>)))],
           heap @ ''.str''),
          snd hp))"

text \<open>\<^verbatim>\<open>jsonPathValueToNumber\<close>.\<close>

definition jsonPathValueToNumber :: "nat \<Rightarrow> string \<Rightarrow> string option \<Rightarrow> (graph \<times> string) \<times> nat" where
  "jsonPathValueToNumber h path resultPath =
     (let hp = (case resultPath of Some r \<Rightarrow> (r, h) | None \<Rightarrow> newHeapVariable h);
          heap = fst hp;
          assign = assignValue (snd hp) (Value (JsonPath path)) (Some (heap @ ''.num''));
          one = assignValue (snd assign) (Value (literalValue (JNum 1))) (Some (heap @ ''.num''));
          zero = assignValue (snd one) (Value (literalValue (JNum 0))) (Some (heap @ ''.num''));
          null = assignValue (snd zero) (Value (JsonPath context_null)) (Some (heap @ ''.num''))
      in ((SubState ''check''
             [(''check'',
               State (ChoiceState
                 \<lparr>Choices =
                    [(isNotPresent path, Label ''null''),
                     (ASL_and [Some (isString path), Some (stringEquals path '''')], Label ''zero''),
                     (isNull path, Label ''zero''),
                     (isString path, Label ''format''),
                     (isNumeric path, Label ''assign''),
                     (ASL_and [Some (isBoolean path), Some (booleanEquals path True)], Label ''one''),
                     (ASL_and [Some (isBoolean path), Some (booleanEquals path False)], Label ''zero'')],
                  Default = Label ''null''\<rparr>)),
              (''format'',
               fst (ASLGraph_assignJsonPathOrIntrinsic
                      (IntrinsicStringToJson (Arg (JsonPath path))) heap ''num''
                      (Label ''checkStringOutput''))),
              (''checkStringOutput'',
               State (ChoiceState \<lparr>Choices = [(isNumeric (heap @ ''.num''), DeferNext)],
                                   Default = Label ''null''\<rparr>)),
              (''assign'', fst (fst assign)),
              (''one'', fst (fst one)),
              (''zero'', fst (fst zero)),
              (''null'', fst (fst null))],
           heap @ ''.num''),
          snd null))"

subsection \<open>Addition\<close>

text \<open>
  \<^verbatim>\<open>numericAdd\<close> and \<^verbatim>\<open>stringConcat\<close> allocate their heap slot first, also when
  both operands are literals and no state is built.
\<close>

definition numericAdd ::
  "host \<Rightarrow> nat \<Rightarrow> JsonPathOrLiteral \<Rightarrow> JsonPathOrLiteral \<Rightarrow> NodeResults \<times> nat" where
  "numericAdd js h leftOut rightOut =
     (let hp = newHeapVariable h; heap = fst hp in
      case (leftOut, rightOut) of
        (LiteralValue l _, LiteralValue r _) \<Rightarrow>
          (Bare (Value (literalValue (js_add js (js_Number js l) (js_Number js r)))), snd hp)
      | _ \<Rightarrow>
          (let ln = (case leftOut of
                       LiteralValue _ _ \<Rightarrow> (None, snd hp)
                     | JsonPath p \<Rightarrow>
                         (Some (fst (fst (jsonPathValueToNumber (snd hp) p (Some (heap @ ''.str.left''))))),
                          snd (jsonPathValueToNumber (snd hp) p (Some (heap @ ''.str.left'')))));
               rn = (case rightOut of
                       LiteralValue _ _ \<Rightarrow> (None, snd ln)
                     | JsonPath p \<Rightarrow>
                         (Some (fst (fst (jsonPathValueToNumber (snd ln) p (Some (heap @ ''.str.right''))))),
                          snd (jsonPathValueToNumber (snd ln) p (Some (heap @ ''.str.right'')))))
           in (OutputState
                 (the (joinSubStates
                    [fst ln, fst rn,
                     Some (fst (ASLGraph_assignJsonPathOrIntrinsic
                       (IntrinsicMathAdd
                          (case leftOut of
                             LiteralValue l _ \<Rightarrow> Arg (literalValue (js_Number js l))
                           | JsonPath _ \<Rightarrow> Arg (JsonPath (heap @ ''.str.left.num'')))
                          (case rightOut of
                             LiteralValue r _ \<Rightarrow> Arg (literalValue (js_Number js r))
                           | JsonPath _ \<Rightarrow> Arg (JsonPath (heap @ ''.str.right.num''))))
                       heap ''str'' DeferNext))]))
                 (Value (JsonPath (heap @ ''.str''))),
               snd rn)))"

definition stringConcat ::
  "host \<Rightarrow> nat \<Rightarrow> JsonPathOrLiteral \<Rightarrow> JsonPathOrLiteral \<Rightarrow> NodeResults \<times> nat" where
  "stringConcat js h leftOut rightOut =
     (let hp = newHeapVariable h; heap = fst hp in
      case (leftOut, rightOut) of
        (LiteralValue l _, LiteralValue r _) \<Rightarrow>
          (Bare (Value (literalValue (JStr (js_String js l @ js_String js r)))), snd hp)
      | _ \<Rightarrow>
          (let ls = (case leftOut of
                       LiteralValue _ _ \<Rightarrow> (None, snd hp)
                     | JsonPath p \<Rightarrow>
                         (Some (fst (fst (jsonPathValueToString (snd hp) p (Some (heap @ ''.str.left''))))),
                          snd (jsonPathValueToString (snd hp) p (Some (heap @ ''.str.left'')))));
               rs = (case rightOut of
                       LiteralValue _ _ \<Rightarrow> (None, snd ls)
                     | JsonPath p \<Rightarrow>
                         (Some (fst (fst (jsonPathValueToString (snd ls) p (Some (heap @ ''.str.right''))))),
                          snd (jsonPathValueToString (snd ls) p (Some (heap @ ''.str.right'')))))
           in (OutputState
                 (the (joinSubStates
                    [fst ls, fst rs,
                     Some (fst (ASLGraph_assignJsonPathOrIntrinsic
                       (IntrinsicFormat ''{}{}''
                          [case leftOut of
                             LiteralValue l _ \<Rightarrow> Arg (literalValue (JStr (js_String js l)))
                           | JsonPath _ \<Rightarrow> Arg (JsonPath (heap @ ''.str.left.str'')),
                           case rightOut of
                             LiteralValue r _ \<Rightarrow> Arg (literalValue (JStr (js_String js r)))
                           | JsonPath _ \<Rightarrow> Arg (JsonPath (heap @ ''.str.right.str''))])
                       heap ''str'' DeferNext))]))
                 (Value (JsonPath (heap @ ''.str''))),
               snd rs)))"

definition plus ::
  "host \<Rightarrow> nat \<Rightarrow> JsonPathOrLiteral \<Rightarrow> JsonPathOrLiteral \<Rightarrow> NodeResults \<times> nat" where
  "plus js h leftOut rightOut =
     (if isLiteralString leftOut \<or> isLiteralString rightOut
      then stringConcat js h leftOut rightOut
      else if isLiteralValue leftOut \<and> isLiteralValue rightOut
      then numericAdd js h leftOut rightOut
      else
        (let sc = stringConcat js h leftOut rightOut;
             na = numericAdd js (snd sc) leftOut rightOut;
             cs = conditionState (snd na)
                    (ASL_or [case leftOut of JsonPath p \<Rightarrow> Some (isString p) | _ \<Rightarrow> None,
                             case rightOut of JsonPath p \<Rightarrow> Some (isString p) | _ \<Rightarrow> None])
                    (Some (fst sc)) (Some (fst na)) None
         in (withOutput (fst cs), snd cs)))"

text \<open>
  The evaluation context of \<^verbatim>\<open>evalContext\<close>: the states collected so far and the
  heap counter. \<^verbatim>\<open>evalExprToJsonPathOrLiteral\<close> evaluates an expression, given as the
  function \<open>ev\<close> that \<^verbatim>\<open>this.eval\<close> is on it, turns a condition into a path with
  \<^verbatim>\<open>normalizeOutputToJsonPathOrLiteralValue\<close>, and pushes the states of both.
\<close>

definition normalizeOutputToJsonPathOrLiteralValue ::
  "nat \<Rightarrow> Output \<Rightarrow> (graph option \<times> JsonPathOrLiteral) \<times> nat" where
  "normalizeOutputToJsonPathOrLiteralValue h out =
     (case out of
        Value v \<Rightarrow> ((None, v), h)
      | ConditionOutput c \<Rightarrow>
          (let cs = conditionState h c None None None
           in ((Some (fst (fst cs)), JsonPath (snd (fst cs))), snd cs)))"

definition evalExprToJsonPathOrLiteral ::
  "(nat \<Rightarrow> NodeResults \<times> nat) \<Rightarrow> graph list \<times> nat \<Rightarrow> JsonPathOrLiteral \<times> graph list \<times> nat" where
  "evalExprToJsonPathOrLiteral ev ctx =
     (let st = ev (snd ctx);
          nm = normalizeOutputToJsonPathOrLiteralValue (snd st) (getAslStateOutput (fst st))
      in (snd (fst nm),
          fst ctx
            @ (case stateOrSubState (fst st) of Some g \<Rightarrow> [g] | None \<Rightarrow> [])
            @ (case fst (fst nm) of Some g \<Rightarrow> [g] | None \<Rightarrow> []),
          snd nm))"

text \<open>
  The end of \<^verbatim>\<open>evalContext\<close>: the collected states joined with the state of the
  handler, under the output of the handler.
\<close>

definition evalContext_join :: "graph list \<Rightarrow> NodeResults \<Rightarrow> NodeResults" where
  "evalContext_join sts handlerState =
     (case joinSubStates (map Some sts @ [stateOrSubState handlerState]) of
        Some joined \<Rightarrow> OutputState joined (getAslStateOutput handlerState)
      | None \<Rightarrow> Bare (getAslStateOutput handlerState))"

text \<open>
  The \<^verbatim>\<open>+\<close> case of \<^verbatim>\<open>eval\<close> on a binary expression that \<^verbatim>\<open>evalToConstant\<close> did
  not fold; \<open>evLeft\<close> and \<open>evRight\<close> are \<^verbatim>\<open>this.eval\<close> on the operands.
\<close>

definition eval_plus ::
  "host \<Rightarrow> (nat \<Rightarrow> NodeResults \<times> nat) \<Rightarrow> (nat \<Rightarrow> NodeResults \<times> nat) \<Rightarrow> nat \<Rightarrow> NodeResults \<times> nat" where
  "eval_plus js evLeft evRight h =
     (let l = evalExprToJsonPathOrLiteral evLeft ([], h);
          r = evalExprToJsonPathOrLiteral evRight (snd l);
          p = plus js (snd (snd r)) (fst l) (fst r)
      in (evalContext_join (fst (snd r)) (fst p), snd p))"

subsection \<open>Negation\<close>





subsection \<open>Compile-time rejections\<close>

text \<open>
  What the compiler throws: a \<^verbatim>\<open>SynthError\<close> with a member of \<^verbatim>\<open>ErrorCodes\<close> and
  an optional message, a plain \<^verbatim>\<open>Error\<close> with a message, or a
  \<^verbatim>\<open>ReferenceError\<close>. The codes are those \<^verbatim>\<open>asl.ts\<close> uses.
\<close>

datatype ErrorCodes =
    Cannot_perform_all_arithmetic_or_bitwise_computations_on_variables_in_Step_Function
  | Classes_are_not_supported
  | Invalid_Input
  | StepFunction_Throw_must_be_Error_or_StepFunctionError_class
  | StepFunctions_Invalid_collection_access
  | StepFunctions_does_not_support_destructuring_object_with_rest
  | StepFunctions_error_cause_must_be_a_constant
  | StepFunctions_property_names_must_be_constant
  | Step_Functions_does_not_support_undefined
  | Unexpected_Error
  | Unsupported_Feature
  | Unsupported_Use_of_Promises

datatype rejection =
    SynthError ErrorCodes "string option"
  | PlainError string
  | ReferenceError string

fun error_code :: "rejection \<Rightarrow> ErrorCodes option" where
  "error_code (SynthError code _) = Some code"
| "error_code (PlainError _) = None"
| "error_code (ReferenceError _) = None"

text \<open>
  \<^verbatim>\<open>err.message\<close>; \<open>None\<close> stands for the text that \<^verbatim>\<open>SynthError\<close> builds when it
  is given no message.
\<close>

fun error_message :: "rejection \<Rightarrow> string option" where
  "error_message (SynthError _ m) = m"
| "error_message (PlainError m) = Some m"
| "error_message (ReferenceError m) = Some m"

subsection \<open>The error router \<^verbatim>\<open>ASL.throw\<close>\<close>

text \<open>
  The syntax tree and its queries (\<^verbatim>\<open>findParent\<close>, \<^verbatim>\<open>throw()\<close>, \<^verbatim>\<open>contains\<close>,
  \<^verbatim>\<open>canThrow\<close>, \<^verbatim>\<open>isTerminal\<close>) belong to \<^verbatim>\<open>@functionless/ast\<close> and
  \<^verbatim>\<open>./guards\<close>, which are outside the embedded sources. \<^verbatim>\<open>ASL.throw\<close> is modelled
  on what these queries answer for the throwing node.

  \<open>closure\<close> is what is read off \<^verbatim>\<open>mapOrParallelClosure\<close>, the nearest enclosing
  function-like node; \<open>contains_catchOrFinally\<close> is
  \<^verbatim>\<open>mapOrParallelClosure.contains(catchOrFinally)\<close>.
\<close>

record closure =
  parent_isArgument :: bool
  parent_parent_isCallExpr :: bool
  parent_parent_expr_isPropAccessExpr :: bool
  parent_parent_expr_name :: string
  parent_parent_expr_expr_isReferenceExpr :: bool
  contains_catchOrFinally :: bool

text \<open>
  The handler \<^verbatim>\<open>node.throw()\<close>: a catch clause, with or without a variable, or a
  block; for a block, whether it is a finally block, whether the \<^verbatim>\<open>try\<close> it belongs to
  has a catch clause and, if so, what \<^verbatim>\<open>canThrow\<close> says of that clause, and whether
  the block is terminal. \<open>node\<close> identifies the node.
\<close>

datatype handler =
    CatchClause (node: nat) (variableDecl: bool)
  | BlockStmt (node: nat) (isFinallyBlock: bool) (parent_catchClause_canThrow: "bool option")
      (isTerminal: bool)

record throw_site =
  mapOrParallelClosure :: "closure option"
  catchOrFinally :: "handler option"

record transition =
  transition_Next :: string
  transition_ResultPath :: "string option"

definition CatchState :: string where
  "CatchState = ''__catch''"

text \<open>
  \<open>generateOrGet\<close> is \<^verbatim>\<open>this.generatedNames.generateOrGet\<close>, the memoized name of
  a node (\<^verbatim>\<open>DeterministicNameGenerator\<close> of \<^verbatim>\<open>@functionless/ast\<close>).
\<close>

definition ASL_throw :: "(nat \<Rightarrow> string) \<Rightarrow> throw_site \<Rightarrow> transition option" where
  "ASL_throw generateOrGet site =
     (case catchOrFinally site of
        None \<Rightarrow> None
      | Some h \<Rightarrow>
          if (case mapOrParallelClosure site of
                None \<Rightarrow> True
              | Some c \<Rightarrow>
                  (parent_isArgument c \<and> parent_parent_isCallExpr c
                   \<and> parent_parent_expr_isPropAccessExpr c
                   \<and> (parent_parent_expr_name c = ''map''
                        \<or> parent_parent_expr_name c = ''filter''
                        \<or> parent_parent_expr_name c = ''forEach'')
                   \<and> \<not> parent_parent_expr_expr_isReferenceExpr c)
                  \<or> contains_catchOrFinally c)
          then Some \<lparr>transition_Next = CatchState,
                     transition_ResultPath =
                       (if (case h of
                              CatchClause _ v \<Rightarrow> v
                            | BlockStmt _ fin pc term \<Rightarrow>
                                fin \<and> (case pc of None \<Rightarrow> False | Some canThrow \<Rightarrow> canThrow)
                                \<and> \<not> term)
                        then Some (''$.'' @ generateOrGet (node h))
                        else None)\<rparr>
          else None)"

subsection \<open>\<^verbatim>\<open>evalStmt\<close>, the \<^verbatim>\<open>throw\<close> statement\<close>

text \<open>
  The thrown expression: a \<^verbatim>\<open>new\<close> expression (\<^verbatim>\<open>isNewExpr\<close>), a call
  (\<^verbatim>\<open>isCallExpr\<close>), a reference to an integration whose inner expression is the call
  (\<^verbatim>\<open>isCallReferencePattern\<close>), or anything else. The callee (\<^verbatim>\<open>updated.expr\<close>: a
  reference, an identifier, a property access, or something else) decides
  \<^verbatim>\<open>errorClassName\<close>; for a reference the flag says whether
  \<^verbatim>\<open>StepFunctionError.isConstructor(ref())\<close> holds, and \<^verbatim>\<open>StepFunctionError.kind\<close>
  is the string \<^verbatim>\<open>"StepFunctionError"\<close> that the name is compared with. An argument
  comes with what
  \<^verbatim>\<open>evalExpr\<close> does on it: a rejection or its result.
\<close>

datatype callee =
    CalleeReference string bool
  | CalleeIdentifier string
  | CalleePropAccess string
  | CalleeOther

record argument =
  isUndefinedLiteralExpr :: bool
  evaluated :: "rejection + NodeResults"

datatype thrown =
    ThrownNew callee "argument list"
  | ThrownCall callee "argument list"
  | ThrownCallReference callee "argument list"
  | ThrownOther

fun errorClassName :: "callee \<Rightarrow> string option" where
  "errorClassName (CalleeReference name isConstructor) =
     (if isConstructor then Some ''StepFunctionError'' else Some name)"
| "errorClassName (CalleeIdentifier name) = Some name"
| "errorClassName (CalleePropAccess name) = Some name"
| "errorClassName CalleeOther = None"

text \<open>
  \<^verbatim>\<open>evalExpr\<close> of the evaluation context: the output, and the state of the argument
  pushed on the context's states when there is one.
\<close>

definition evalExpr :: "argument \<Rightarrow> graph list \<Rightarrow> rejection + (Output \<times> graph list)" where
  "evalExpr a sts =
     (case evaluated a of
        Inl e \<Rightarrow> Inl e
      | Inr r \<Rightarrow>
          Inr (getAslStateOutput r,
               (case stateOrSubState r of None \<Rightarrow> sts | Some g \<Rightarrow> sts @ [g])))"

definition toJson :: "argument \<Rightarrow> graph list \<Rightarrow> rejection + (json \<times> graph list)" where
  "toJson a sts =
     (case evalExpr a sts of
        Inl e \<Rightarrow> Inl e
      | Inr (out, sts') \<Rightarrow>
          (case out of
             Value (LiteralValue v False) \<Rightarrow> Inr (v, sts')
           | _ \<Rightarrow> Inl (SynthError StepFunctions_error_cause_must_be_a_constant None)))"

fun js_typeof :: "json \<Rightarrow> string" where
  "js_typeof (JStr _) = ''string''"
| "js_typeof (JNum _) = ''number''"
| "js_typeof (JBool _) = ''boolean''"
| "js_typeof _ = ''object''"

definition resolveErrorNameAndCause ::
  "string option \<Rightarrow> argument list \<Rightarrow> rejection + ((string \<times> json) \<times> graph list)" where
  "resolveErrorNameAndCause className args =
     (if className = Some ''Error'' then
        (case args of
           [] \<Rightarrow> Inr ((''Error'', JObj [(''message'', JNull)]), [])
         | errorMessage # _ \<Rightarrow>
             if isUndefinedLiteralExpr errorMessage
             then Inr ((''Error'', JObj [(''message'', JNull)]), [])
             else (case toJson errorMessage [] of
                     Inl e \<Rightarrow> Inl e
                   | Inr (v, sts) \<Rightarrow> Inr ((''Error'', JObj [(''message'', v)]), sts)))
      else if className = Some ''StepFunctionError'' then
        (case args of
           err # cause # _ \<Rightarrow>
             (case toJson err [] of
                Inl e \<Rightarrow> Inl e
              | Inr (JStr errorName, sts) \<Rightarrow>
                  (case toJson cause sts of
                     Inl e \<Rightarrow>
                       Inl (SynthError StepFunctions_error_cause_must_be_a_constant (error_message e))
                   | Inr (causeJson, sts') \<Rightarrow> Inr ((errorName, causeJson), sts'))
              | Inr (v, sts) \<Rightarrow>
                  Inl (SynthError Unexpected_Error
                        (Some (''Expected 'error' parameter in StepFunctionError to be of type string, but got ''
                                @ js_typeof v))))
         | _ \<Rightarrow>
             Inl (SynthError Unexpected_Error
                   (Some ''Expected 'error' and 'cause' parameter in StepFunctionError'')))
      else Inl (SynthError StepFunction_Throw_must_be_Error_or_StepFunctionError_class None))"

definition throwState :: "host \<Rightarrow> transition option \<Rightarrow> string \<Rightarrow> json \<Rightarrow> state" where
  "throwState js throwTransition errorName causeJson =
     (case throwTransition of
        None \<Rightarrow> FailState \<lparr>Error = errorName, Cause = JSON_stringify js causeJson\<rparr>
      | Some t \<Rightarrow>
          PassState (Pass0\<lparr>Result := Some causeJson,
                           Next := Some (Label (transition_Next t)),
                           ResultPath := Some (transition_ResultPath t)\<rparr>))"

text \<open>
  \<^verbatim>\<open>updated\<close>: the call that is thrown, or nothing when the thrown expression is
  neither a \<^verbatim>\<open>new\<close> expression, a call nor a reference to an integration.
\<close>

fun updated :: "thrown \<Rightarrow> (callee \<times> argument list) option" where
  "updated (ThrownNew c args) = Some (c, args)"
| "updated (ThrownCall c args) = Some (c, args)"
| "updated (ThrownCallReference c args) = Some (c, args)"
| "updated ThrownOther = None"

definition evalStmt_ThrowStmt ::
  "host \<Rightarrow> (nat \<Rightarrow> string) \<Rightarrow> throw_site \<Rightarrow> thrown \<Rightarrow> rejection + graph" where
  "evalStmt_ThrowStmt js generateOrGet site expr =
     (case updated expr of
        None \<Rightarrow> Inl (PlainError ''the expr of a ThrowStmt must be a NewExpr or CallExpr'')
      | Some (c, args) \<Rightarrow>
          (case resolveErrorNameAndCause (errorClassName c) args of
             Inl e \<Rightarrow> Inl e
           | Inr ((errorName, causeJson), sts) \<Rightarrow>
               Inr (the (joinSubStates
                      (map Some sts
                       @ [Some (State (throwState js (ASL_throw generateOrGet site)
                                         errorName causeJson))])))))"





subsection \<open>\<^verbatim>\<open>evalStmt\<close>, \<^verbatim>\<open>break\<close> and \<^verbatim>\<open>continue\<close>\<close>

definition BreakNext :: string where
  "BreakNext = ''__BreakNext''"

definition ContinueNext :: string where
  "ContinueNext = ''__ContinueNext''"

datatype jump = BreakStmt | ContinueStmt

text \<open>
  \<open>loop\<close> is \<^verbatim>\<open>stmt.findParent(anyOf(isForOfStmt, isForInStmt, isForStmt, isWhileStmt,
  isDoStmt))\<close>, the enclosing loop if there is one.
\<close>

definition evalStmt_BreakOrContinue :: "jump \<Rightarrow> nat option \<Rightarrow> rejection + graph" where
  "evalStmt_BreakOrContinue stmt loop =
     (case loop of
        None \<Rightarrow> Inl (PlainError ''Stack Underflow'')
      | Some _ \<Rightarrow>
          Inr (State (PassState
                 (case stmt of
                    BreakStmt \<Rightarrow> Pass0\<lparr>Next := Some (Label BreakNext)\<rparr>
                  | ContinueStmt \<Rightarrow>
                      Pass0\<lparr>Next := Some (Label ContinueNext), ResultPath := Some None\<rparr>))))"

subsection \<open>\<^verbatim>\<open>evalStmt\<close>, the \<^verbatim>\<open>try\<close> statement: the catch clause\<close>





subsection \<open>\<^verbatim>\<open>evalStmt\<close>, the \<^verbatim>\<open>return\<close> statement\<close>


subsection \<open>\<^verbatim>\<open>filter\<close> compiled to a JSON path\<close>

text \<open>
  The syntax of a predicate, as far as \<^verbatim>\<open>filterToJsonPath\<close> looks at it. A constant is
  what \<^verbatim>\<open>evalToConstant\<close> finds (\<^verbatim>\<open>constant.constant\<close>); \<^verbatim>\<open>evalToConstant\<close>
  itself belongs to \<^verbatim>\<open>@functionless/ast\<close> and is a parameter of the functions below.
\<close>

datatype Constant = Undefined | Const json

text \<open>
  A binding element sits in an array pattern, at an index, or in an object pattern, with
  its \<^verbatim>\<open>propertyName\<close> (an identifier, a string literal, or another expression, given
  by what \<^verbatim>\<open>evalToConstant\<close> finds for it) and its \<^verbatim>\<open>name\<close> when that is an
  identifier. A declaration is a parameter, which is the first parameter of the predicate
  or not, or a binding element with the declaration \<^verbatim>\<open>ref.parent.parent\<close> around it.
\<close>

datatype property_name =
    PropertyIdentifier string
  | PropertyStringLiteral string
  | PropertyComputed "Constant option"

datatype binding =
    ArrayBinding nat
  | ObjectBinding "property_name option" "string option"

datatype decl =
    ParameterDecl bool
  | BindingElem decl binding

text \<open>
  \<^verbatim>\<open>expr.lookup()\<close> of an identifier: nothing, a parameter or binding element (with
  whether it lies inside the predicate), or another node.
\<close>

datatype lookup = NotFound | ParameterOrBinding decl bool | OtherNode

datatype expr =
    StringLiteralExpr string
  | NumberLiteralExpr int
  | BooleanLiteralExpr bool
  | NullLiteralExpr
  | UndefinedLiteralExpr
  | ObjectLiteralExpr "(string \<times> json) list"
  | BinaryExpr expr string expr
  | UnaryExpr string expr
  | Identifier string lookup
  | PropAccessExpr expr string
  | ElementAccessExpr expr "rejection + Output"
  | CallExpr expr "expr list"











text \<open>The statements of the body of the predicate.\<close>

datatype stmt = ReturnStmt "expr option" | OtherStmt



subsection \<open>Reading a graph\<close>

text \<open>
  The intrinsic functions that the \<^verbatim>\<open>Pass\<close> states of a graph assign, in order; used
  to say which intrinsics a lowering emits.
\<close>

fun state_intrinsics :: "state \<Rightarrow> intrinsic list" where
  "state_intrinsics (PassState p) =
     (case Parameters p of Some (ParamAssign _ i) \<Rightarrow> [i] | _ \<Rightarrow> [])"
| "state_intrinsics _ = []"

fun graph_intrinsics :: "graph \<Rightarrow> intrinsic list" where
  "graph_intrinsics (State s) = state_intrinsics s"
| "graph_intrinsics (SubState _ sts) = concat (map (\<lambda>x. graph_intrinsics (snd x)) sts)"
| "graph_intrinsics (Joined gs) = concat (map graph_intrinsics gs)"

fun results_intrinsics :: "NodeResults \<Rightarrow> intrinsic list" where
  "results_intrinsics (Bare _) = []"
| "results_intrinsics (OutputState g _) = graph_intrinsics g"

section \<open>Theorems\<close>

subsection \<open>Condition combinators\<close>

lemma defined_conds_simps [simp]:
  "defined_conds [] = []"
  "defined_conds (None # cs) = defined_conds cs"
  "defined_conds (Some c # cs) = c # defined_conds cs"
  by (simp_all add: defined_conds_def)


text \<open>
  C7. \<^verbatim>\<open>ASL.and\<close> of no condition is the trivially true predicate
  \<^verbatim>\<open>{Variable: "$$.Execution.Id", IsNull: false}\<close>, of one condition that condition,
  of two or more an \<^verbatim>\<open>And\<close> node over them; \<^verbatim>\<open>ASL.or\<close> is symmetric with the
  trivially false predicate \<^verbatim>\<open>{Variable: "$$.Execution.Id", IsNull: true}\<close> and an
  \<^verbatim>\<open>Or\<close> node. Undefined arguments do not count. In an execution, where
  \<^verbatim>\<open>$$.Execution.Id\<close> is a string, the first predicate holds and the second does not.
\<close>

theorem and_or_combinators:
  "ASL_and [] = Atom ''$$.Execution.Id'' ''IsNull'' (JBool False)
   \<and> ASL_or [] = Atom ''$$.Execution.Id'' ''IsNull'' (JBool True)
   \<and> (defined_conds cs = [] \<longrightarrow> ASL_and cs = trueCondition \<and> ASL_or cs = falseCondition)
   \<and> (defined_conds cs = [c] \<longrightarrow> ASL_and cs = c \<and> ASL_or cs = c)
   \<and> (2 \<le> length (defined_conds cs) \<longrightarrow>
        ASL_and cs = CAnd (defined_conds cs) \<and> ASL_or cs = COr (defined_conds cs))
   \<and> (doc ''$$.Execution.Id'' = Some (JStr eid) \<longrightarrow>
        holds doc (ASL_and []) \<and> \<not> holds doc (ASL_or []))"
  by (simp add: ASL_and_def ASL_or_def trueCondition_def falseCondition_def isNull_def isNotNull_def Let_def)

theorem and_or_combinators_witness:
  "defined_conds [None, Some (isString ''$.a''), None] = [isString ''$.a'']
   \<and> ASL_and [None, Some (isString ''$.a''), None] = isString ''$.a''
   \<and> ASL_or [None, Some (isString ''$.a''), None] = isString ''$.a''
   \<and> 2 \<le> length (defined_conds [Some (isString ''$.a''), None, Some (isNumeric ''$.a'')])
   \<and> ASL_and [Some (isString ''$.a''), None, Some (isNumeric ''$.a'')]
       = CAnd [isString ''$.a'', isNumeric ''$.a'']
   \<and> ASL_or [Some (isString ''$.a''), None, Some (isNumeric ''$.a'')]
       = COr [isString ''$.a'', isNumeric ''$.a'']
   \<and> holds (\<lambda>p. if p = ''$$.Execution.Id'' then Some (JStr ''arn'') else None) (ASL_and [])
   \<and> \<not> holds (\<lambda>p. if p = ''$$.Execution.Id'' then Some (JStr ''arn'') else None) (ASL_or [])"
  using and_or_combinators [of "[None, Some (isString ''$.a''), None]" "isString ''$.a''"
          "\<lambda>p. if p = ''$$.Execution.Id'' then Some (JStr ''arn'') else None" "''arn''"]
        and_or_combinators [of "[Some (isString ''$.a''), None, Some (isNumeric ''$.a'')]" "isString ''$.a''"
          "\<lambda>p. if p = ''$$.Execution.Id'' then Some (JStr ''arn'') else None" "''arn''"]
  by simp


subsection \<open>Truthiness\<close>





subsection \<open>Comparisons without an atom\<close>

text \<open>
  C10. The table has no atom exactly for \<^verbatim>\<open>!=\<close> and \<^verbatim>\<open>!==\<close> at every type and
  for \<^verbatim>\<open><\<close>, \<^verbatim>\<open><=\<close>, \<^verbatim>\<open>>\<close>, \<^verbatim>\<open>>=\<close> at type boolean. For such a pair
  \<^verbatim>\<open>compareValueOfType\<close> and \<^verbatim>\<open>comparePathOfType\<close> raise nothing (they are total
  functions into conditions) and return \<^verbatim>\<open>{Variable: "$$.Execution.Id", IsNull: true}\<close>,
  which does not hold in any execution, where \<^verbatim>\<open>$$.Execution.Id\<close> is a string.
\<close>

theorem compare_without_atom:
  "(VALUE_COMPARISONS operation ty = None \<longleftrightarrow>
      operation = OpNotEq \<or> operation = OpNotEqEq \<or>
      (ty = TBoolean \<and> (operation = OpLt \<or> operation = OpLtEq \<or> operation = OpGt \<or> operation = OpGtEq)))
   \<and> (VALUE_COMPARISONS operation (typeof_value value) = None \<longrightarrow>
        compareValueOfType v operation value = Atom ''$$.Execution.Id'' ''IsNull'' (JBool True))
   \<and> (VALUE_COMPARISONS operation ty = None \<longrightarrow>
        comparePathOfType v operation path ty = Atom ''$$.Execution.Id'' ''IsNull'' (JBool True))
   \<and> (doc ''$$.Execution.Id'' = Some (JStr eid) \<longrightarrow>
        \<not> holds doc (Atom ''$$.Execution.Id'' ''IsNull'' (JBool True)))"
proof -
  have tab: "VALUE_COMPARISONS operation ty = None \<longleftrightarrow>
      operation = OpNotEq \<or> operation = OpNotEqEq \<or>
      (ty = TBoolean \<and> (operation = OpLt \<or> operation = OpLtEq \<or> operation = OpGt \<or> operation = OpGtEq))"
    by (cases operation; cases ty) simp_all
  have a: "VALUE_COMPARISONS operation (typeof_value value) = None \<longrightarrow>
        compareValueOfType v operation value = Atom ''$$.Execution.Id'' ''IsNull'' (JBool True)"
    by (simp add: compareValueOfType_def falseCondition_def isNull_def)
  have b: "VALUE_COMPARISONS operation ty = None \<longrightarrow>
        comparePathOfType v operation path ty = Atom ''$$.Execution.Id'' ''IsNull'' (JBool True)"
    by (simp add: comparePathOfType_def falseCondition_def isNull_def)
  have c: "doc ''$$.Execution.Id'' = Some (JStr eid) \<longrightarrow>
        \<not> holds doc (Atom ''$$.Execution.Id'' ''IsNull'' (JBool True))"
    by simp
  from tab a b c show ?thesis by blast
qed

theorem compare_without_atom_witness:
  "VALUE_COMPARISONS OpLt (typeof_value (VBoolean True)) = None
   \<and> compareValueOfType ''$.a'' OpLt (VBoolean True) = Atom ''$$.Execution.Id'' ''IsNull'' (JBool True)
   \<and> VALUE_COMPARISONS OpNotEqEq TString = None
   \<and> comparePathOfType ''$.a'' OpNotEqEq ''$.b'' TString = Atom ''$$.Execution.Id'' ''IsNull'' (JBool True)
   \<and> \<not> holds (\<lambda>p. if p = ''$$.Execution.Id'' then Some (JStr ''arn'') else None)
          (comparePathOfType ''$.a'' OpNotEqEq ''$.b'' TString)"
  using compare_without_atom [of OpLt TBoolean "VBoolean True" "''$.a''" "''$.b''"
          "\<lambda>p. if p = ''$$.Execution.Id'' then Some (JStr ''arn'') else None" "''arn''"]
        compare_without_atom [of OpNotEqEq TString "VString ''x''" "''$.a''" "''$.b''"
          "\<lambda>p. if p = ''$$.Execution.Id'' then Some (JStr ''arn'') else None" "''arn''"]
  by simp


subsection \<open>State names\<close>

lemma digit_char_inj: "a < 10 \<Longrightarrow> b < 10 \<Longrightarrow> digit_char a = digit_char b \<Longrightarrow> a = b"
proof -
  assume a: "a < 10" and b: "b < 10" and e: "digit_char a = digit_char b"
  have d: "distinct ''0123456789''" by simp
  have "a < length ''0123456789''" "b < length ''0123456789''" using a b by simp_all
  with d e show "a = b" by (simp add: nth_eq_iff_index_eq del: distinct.simps)
qed

lemma show_nat_nonempty: "show_nat n \<noteq> []"
  by (subst show_nat.simps) simp

lemma show_nat_inj: "show_nat n = show_nat m \<Longrightarrow> n = m"
proof (induction n arbitrary: m rule: show_nat.induct)
  case (1 n)
  show ?case
  proof (cases "n < 10")
    case True
    show ?thesis
    proof (cases "m < 10")
      case mt: True
      from 1(2) True mt have "digit_char n = digit_char m"
        by (simp add: show_nat.simps [of n] show_nat.simps [of m])
      with True mt show ?thesis by (rule_tac digit_char_inj)
    next
      case mf: False
      from 1(2) True mf have "[digit_char n] = show_nat (m div 10) @ [digit_char (m mod 10)]"
        by (simp add: show_nat.simps [of n] show_nat.simps [of m])
      then have "show_nat (m div 10) = []" by simp
      then show ?thesis using show_nat_nonempty by blast
    qed
  next
    case False
    show ?thesis
    proof (cases "m < 10")
      case mt: True
      from 1(2) False mt have "show_nat (n div 10) @ [digit_char (n mod 10)] = [digit_char m]"
        by (simp add: show_nat.simps [of n] show_nat.simps [of m])
      then have "show_nat (n div 10) = []" by simp
      then show ?thesis using show_nat_nonempty by blast
    next
      case mf: False
      from 1(2) False mf have
        "show_nat (n div 10) @ [digit_char (n mod 10)]
           = show_nat (m div 10) @ [digit_char (m mod 10)]"
        by (simp add: show_nat.simps [of n] show_nat.simps [of m])
      then have p: "show_nat (n div 10) = show_nat (m div 10)"
        and d: "digit_char (n mod 10) = digit_char (m mod 10)" by simp_all
      from 1(1) [OF False p] have q: "n div 10 = m div 10" .
      have r: "n mod 10 = m mod 10" by (rule digit_char_inj [OF _ _ d]) simp_all
      from q r show ?thesis by (metis div_mult_mod_eq)
    qed
  qed
qed

lemma stateFormatName_inj: "stateFormatName name n = stateFormatName name m \<Longrightarrow> n = m"
  by (simp add: stateFormatName_def show_nat_inj)

lemma nextUnused_total:
  assumes inj: "\<And>a b. formatName name a = formatName name b \<Longrightarrow> a = b"
  shows "\<exists>k. nextUnused formatName names name n = Some k \<and> n \<le> k
             \<and> formatName name k \<notin> set names
             \<and> (\<forall>m. n \<le> m \<and> m < k \<longrightarrow> formatName name m \<in> set names)"
proof (induction "card {m. n \<le> m \<and> formatName name m \<in> set names}" arbitrary: n rule: less_induct)
  case less
  let ?S = "\<lambda>n. {m. n \<le> m \<and> formatName name m \<in> set names}"
  have fin: "finite (?S n)" for n
  proof -
    have "inj (formatName name)" using inj by (auto simp: inj_on_def)
    then have "finite (formatName name -` set names)" by (simp add: finite_vimageI)
    moreover have "?S n \<subseteq> formatName name -` set names" by auto
    ultimately show ?thesis by (rule rev_finite_subset)
  qed
  show ?case
  proof (cases "formatName name n \<in> set names")
    case False
    then show ?thesis by (subst nextUnused.simps) auto
  next
    case True
    have "n \<in> ?S n" "n \<notin> ?S (n + 1)" "?S (n + 1) \<subseteq> ?S n" using True by auto
    then have "?S (n + 1) \<subset> ?S n" by blast
    then have "card (?S (n + 1)) < card (?S n)" using fin by (simp add: psubset_card_mono)
    from less [OF this] obtain k where k: "nextUnused formatName names name (n + 1) = Some k"
      "n + 1 \<le> k" "formatName name k \<notin> set names"
      "\<forall>m. n + 1 \<le> m \<and> m < k \<longrightarrow> formatName name m \<in> set names" by blast
    have "\<forall>m. n \<le> m \<and> m < k \<longrightarrow> formatName name m \<in> set names"
    proof (intro allI impI)
      fix m assume "n \<le> m \<and> m < k"
      then have "m = n \<or> (n + 1 \<le> m \<and> m < k)" by arith
      then show "formatName name m \<in> set names" using True k(4) by blast
    qed
    with k True show ?thesis by (subst nextUnused.simps) auto
  qed
qed

lemma truncated: "(if length s > 75 then take 75 s else s) = take 75 s"
  by simp

lemma createUniqueStateName_step:
  "\<exists>r names'. createUniqueStateName names stateName = Some (r, names')
     \<and> (take 75 stateName \<notin> set names \<longrightarrow> r = take 75 stateName)
     \<and> (take 75 stateName \<in> set names \<longrightarrow>
          (\<exists>n\<ge>1. r = take 75 stateName @ '' '' @ show_nat n
              \<and> (\<forall>m. 1 \<le> m \<and> m < n \<longrightarrow> take 75 stateName @ '' '' @ show_nat m \<in> set names)))
     \<and> r \<notin> set names \<and> set names' = insert r (set names)"
proof (cases "take 75 stateName \<in> set names")
  case False
  then show ?thesis
    by (simp add: createUniqueStateName_def getUnique_def truncated Let_def del: take_all_iff)
next
  case True
  have "\<exists>k. nextUnused stateFormatName names (take 75 stateName) 1 = Some k \<and> 1 \<le> k
             \<and> stateFormatName (take 75 stateName) k \<notin> set names
             \<and> (\<forall>m. 1 \<le> m \<and> m < k \<longrightarrow> stateFormatName (take 75 stateName) m \<in> set names)"
    by (rule nextUnused_total) (rule stateFormatName_inj)
  then obtain k where k: "nextUnused stateFormatName names (take 75 stateName) 1 = Some k" "1 \<le> k"
    "stateFormatName (take 75 stateName) k \<notin> set names"
    "\<forall>m. 1 \<le> m \<and> m < k \<longrightarrow> stateFormatName (take 75 stateName) m \<in> set names" by blast
  have c: "createUniqueStateName names stateName
      = Some (stateFormatName (take 75 stateName) k, stateFormatName (take 75 stateName) k # names)"
    using True k(1) by (simp add: createUniqueStateName_def getUnique_def truncated Let_def del: take_all_iff)
  show ?thesis using True k(2,3,4) unfolding c by (auto simp: stateFormatName_def)
qed

lemma createUniqueStateNames_distinct:
  "\<exists>rs names'. createUniqueStateNames names reqs = Some (rs, names')
     \<and> length rs = length reqs \<and> distinct rs \<and> set rs \<inter> set names = {}
     \<and> set names' = set names \<union> set rs"
proof (induction reqs arbitrary: names)
  case Nil
  show ?case by simp
next
  case (Cons s ss)
  from createUniqueStateName_step [of names s] obtain r names1 where
    r: "createUniqueStateName names s = Some (r, names1)" "r \<notin> set names"
       "set names1 = insert r (set names)" by blast
  from Cons [of names1] obtain rs names2 where
    rs: "createUniqueStateNames names1 ss = Some (rs, names2)" "length rs = length ss"
        "distinct rs" "set rs \<inter> set names1 = {}" "set names2 = set names1 \<union> set rs" by blast
  have "createUniqueStateNames names (s # ss) = Some (r # rs, names2)" using r(1) rs(1) by simp
  moreover have "distinct (r # rs)" using rs(3,4) r(3) by auto
  moreover have "set (r # rs) \<inter> set names = {}" using r(2,3) rs(4) by auto
  moreover have "set names2 = set names \<union> set (r # rs)" using r(3) rs(5) by auto
  ultimately show ?case using rs(2) by simp
qed


text \<open>
  C8. \<^verbatim>\<open>createUniqueStateName\<close> always returns. The name it works on is the request cut
  to at most 75 characters. If that name is not memoized it is returned as it is; if it
  is, the result is that name, a space and the smallest number from 1 on whose suffixed
  form is not memoized. The result was not memoized before and is afterwards, so the
  names returned for any sequence of requests to a fresh generator are pairwise distinct.
\<close>

theorem state_names_unique:
  "(\<exists>r names'. createUniqueStateName names stateName = Some (r, names')
      \<and> length (take 75 stateName) \<le> 75
      \<and> (take 75 stateName \<notin> set names \<longrightarrow> r = take 75 stateName)
      \<and> (take 75 stateName \<in> set names \<longrightarrow>
           (\<exists>n\<ge>1. r = take 75 stateName @ '' '' @ show_nat n
               \<and> (\<forall>m. 1 \<le> m \<and> m < n \<longrightarrow>
                     take 75 stateName @ '' '' @ show_nat m \<in> set names)))
      \<and> r \<notin> set names \<and> set names' = insert r (set names))
   \<and> (\<exists>rs names'. createUniqueStateNames [] reqs = Some (rs, names')
         \<and> length rs = length reqs \<and> distinct rs)"
proof
  from createUniqueStateName_step [of names stateName]
  show "\<exists>r names'. createUniqueStateName names stateName = Some (r, names')
      \<and> length (take 75 stateName) \<le> 75
      \<and> (take 75 stateName \<notin> set names \<longrightarrow> r = take 75 stateName)
      \<and> (take 75 stateName \<in> set names \<longrightarrow>
           (\<exists>n\<ge>1. r = take 75 stateName @ '' '' @ show_nat n
               \<and> (\<forall>m. 1 \<le> m \<and> m < n \<longrightarrow>
                     take 75 stateName @ '' '' @ show_nat m \<in> set names)))
      \<and> r \<notin> set names \<and> set names' = insert r (set names)"
    by (elim exE conjE, intro exI conjI) simp_all
  from createUniqueStateNames_distinct [of "[]" reqs]
  show "\<exists>rs names'. createUniqueStateNames [] reqs = Some (rs, names')
         \<and> length rs = length reqs \<and> distinct rs"
    by blast
qed

theorem state_names_unique_witness:
  "take 75 ''a'' \<in> set [''a 1'', ''a'']
   \<and> createUniqueStateName [''a 1'', ''a''] ''a'' = Some (''a 2'', [''a 2'', ''a 1'', ''a''])
   \<and> createUniqueStateNames [] [''a'', ''a'', ''a 1'', ''a'']
       = Some ([''a'', ''a 1'', ''a 1 1'', ''a 2''], [''a 2'', ''a 1 1'', ''a 1'', ''a''])"
  using state_names_unique [of "[''a 1'', ''a'']" "''a''" "[''a'', ''a'', ''a 1'', ''a'']"]
  by (simp add: createUniqueStateName_def getUnique_def nextUnused.simps stateFormatName_def
        show_nat.simps Let_def)

subsection \<open>Joining sub-states\<close>




lemma joinSubStates_simps [simp]:
  "joinSubStates [] = None"
  "joinSubStates (None # gs) = joinSubStates gs"
  "joinSubStates (Some g # gs) = Some (Joined (g # List.map_filter (\<lambda>x. x) gs))"
  by (simp_all add: joinSubStates_def split: list.splits)







subsection \<open>Rejections\<close>

text \<open>
  C9. A rejection without a code: \<^verbatim>\<open>throw e\<close>, where the thrown expression is neither a
  \<^verbatim>\<open>new\<close> expression nor a call, is rejected with a plain \<^verbatim>\<open>Error\<close>, and so is a
  \<^verbatim>\<open>break\<close> with no enclosing loop; neither carries a member of \<^verbatim>\<open>ErrorCodes\<close>.
\<close>

theorem rejection_without_code:
  "evalStmt_ThrowStmt js gen site ThrownOther
     = Inl (PlainError ''the expr of a ThrowStmt must be a NewExpr or CallExpr'')
   \<and> error_code (PlainError ''the expr of a ThrowStmt must be a NewExpr or CallExpr'') = None
   \<and> evalStmt_BreakOrContinue BreakStmt None = Inl (PlainError ''Stack Underflow'')
   \<and> error_code (PlainError ''Stack Underflow'') = None"
  by (simp add: evalStmt_ThrowStmt_def evalStmt_BreakOrContinue_def)


subsection \<open>The catch clause of a \<^verbatim>\<open>try\<close> statement\<close>







subsection \<open>Negation\<close>

lemma assignValue_path:
  "assignValue h (Value (JsonPath p)) (Some t) =
     ((State (PassState (Pass0\<lparr>Next := Some DeferNext, ResultPath := Some (Some t),
                               InputPath := Some p\<rparr>)), t), h)"
  by (simp add: Let_def)






subsection \<open>Addition\<close>

lemma show_nat_digits: "set (show_nat n) \<subseteq> set ''0123456789''"
proof (induction n rule: show_nat.induct)
  case (1 n)
  have d: "digit_char k \<in> set ''0123456789''" if "k < 10" for k
  proof -
    from that have "k < length ''0123456789''" by simp
    then have "''0123456789'' ! k \<in> set ''0123456789''" by (rule nth_mem)
    then show ?thesis by simp
  qed
  show ?case
  proof (cases "n < 10")
    case True
    then show ?thesis using d [of n] by (subst show_nat.simps) simp
  next
    case False
    have "n mod 10 < 10" by simp
    with False 1 d [of "n mod 10"] show ?thesis
      by (subst show_nat.simps) simp
  qed
qed

lemma heap_str_neq: "''$.heap'' @ show_nat a @ ''.str'' \<noteq> ''$.heap'' @ show_nat b"
proof
  assume "''$.heap'' @ show_nat a @ ''.str'' = ''$.heap'' @ show_nat b"
  then have e: "show_nat a @ ''.str'' = show_nat b" by simp
  have "CHR ''.'' \<in> set (show_nat a @ ''.str'')" by simp
  with e have "CHR ''.'' \<in> set (show_nat b)" by simp
  with show_nat_digits [of b] show False by auto
qed

lemma stringConcat_literals:
  "stringConcat js h (LiteralValue l a) (LiteralValue r b) =
     (Bare (Value (LiteralValue (JStr (js_String js l @ js_String js r)) False)), h + 1)"
  by (simp add: stringConcat_def Let_def newHeapVariable_def literalValue_def)

lemma numericAdd_literals:
  "numericAdd js h (LiteralValue l a) (LiteralValue r b) =
     (Bare (Value (LiteralValue (js_add js (js_Number js l) (js_Number js r)) False)), h + 1)"
  by (simp add: numericAdd_def Let_def newHeapVariable_def literalValue_def)

lemma jsonPathValueToString_snd: "snd (jsonPathValueToString h p (Some r)) = h"
  by (simp add: jsonPathValueToString_def Let_def)

lemma assignValue_target_snd: "snd (assignValue h (Value v) (Some t)) = h"
  by (simp add: Let_def)

lemma jsonPathValueToNumber_snd: "snd (jsonPathValueToNumber h p (Some r)) = h"
  by (simp add: jsonPathValueToNumber_def Let_def del: assignValue.simps
        add: assignValue_target_snd)

lemma stringConcat_shape:
  assumes "\<not> (isLiteralValue l \<and> isLiteralValue r)"
  shows "stringConcat js h l r =
     (OutputState
        (Joined
           ((case l of
               JsonPath p \<Rightarrow>
                 [fst (fst (jsonPathValueToString (h + 1) p
                              (Some (''$.heap'' @ show_nat h @ ''.str.left''))))]
             | LiteralValue _ _ \<Rightarrow> [])
            @ (case r of
                 JsonPath p \<Rightarrow>
                   [fst (fst (jsonPathValueToString (h + 1) p
                                (Some (''$.heap'' @ show_nat h @ ''.str.right''))))]
               | LiteralValue _ _ \<Rightarrow> [])
            @ [State (PassState
                 (Pass0\<lparr>Parameters := Some (ParamAssign ''str.$''
                            (IntrinsicFormat ''{}{}''
                               [case l of
                                  LiteralValue v _ \<Rightarrow> Arg (LiteralValue (JStr (js_String js v)) False)
                                | JsonPath _ \<Rightarrow>
                                    Arg (JsonPath (''$.heap'' @ show_nat h @ ''.str.left.str'')),
                                case r of
                                  LiteralValue v _ \<Rightarrow> Arg (LiteralValue (JStr (js_String js v)) False)
                                | JsonPath _ \<Rightarrow>
                                    Arg (JsonPath (''$.heap'' @ show_nat h @ ''.str.right.str''))])),
                         Next := Some DeferNext,
                         ResultPath := Some (Some (''$.heap'' @ show_nat h))\<rparr>))]))
        (Value (JsonPath (''$.heap'' @ show_nat h @ ''.str''))),
      h + 1)"
  using assms
  by (cases l; cases r)
     (simp_all add: stringConcat_def Let_def newHeapVariable_def literalValue_def
        jsonPathValueToString_snd ASLGraph_assignJsonPathOrIntrinsic_def)

lemma numericAdd_shape:
  assumes "\<not> (isLiteralValue l \<and> isLiteralValue r)"
  shows "numericAdd js h l r =
     (OutputState
        (Joined
           ((case l of
               JsonPath p \<Rightarrow>
                 [fst (fst (jsonPathValueToNumber (h + 1) p
                              (Some (''$.heap'' @ show_nat h @ ''.str.left''))))]
             | LiteralValue _ _ \<Rightarrow> [])
            @ (case r of
                 JsonPath p \<Rightarrow>
                   [fst (fst (jsonPathValueToNumber (h + 1) p
                                (Some (''$.heap'' @ show_nat h @ ''.str.right''))))]
               | LiteralValue _ _ \<Rightarrow> [])
            @ [State (PassState
                 (Pass0\<lparr>Parameters := Some (ParamAssign ''str.$''
                            (IntrinsicMathAdd
                               (case l of
                                  LiteralValue v _ \<Rightarrow> Arg (LiteralValue (js_Number js v) False)
                                | JsonPath _ \<Rightarrow>
                                    Arg (JsonPath (''$.heap'' @ show_nat h @ ''.str.left.num'')))
                               (case r of
                                  LiteralValue v _ \<Rightarrow> Arg (LiteralValue (js_Number js v) False)
                                | JsonPath _ \<Rightarrow>
                                    Arg (JsonPath (''$.heap'' @ show_nat h @ ''.str.right.num''))))),
                         Next := Some DeferNext,
                         ResultPath := Some (Some (''$.heap'' @ show_nat h))\<rparr>))]))
        (Value (JsonPath (''$.heap'' @ show_nat h @ ''.str''))),
      h + 1)"
  using assms
  by (cases l; cases r)
     (simp_all add: numericAdd_def Let_def newHeapVariable_def literalValue_def
        jsonPathValueToNumber_snd ASLGraph_assignJsonPathOrIntrinsic_def)


lemma conditionState_of_paths:
  assumes "ps \<noteq> ''$.heap'' @ show_nat h" and "pn \<noteq> ''$.heap'' @ show_nat h"
  shows "conditionState h cond (Some (OutputState gs (Value (JsonPath ps))))
           (Some (OutputState gn (Value (JsonPath pn)))) None =
     ((SubState ''default''
         [(''default'',
           State (ChoiceState \<lparr>Choices = [(cond, Label ''true'')], Default = Label ''false''\<rparr>)),
          (''true'',
           Joined [gs, State (PassState (Pass0\<lparr>Next := Some DeferNext,
                      ResultPath := Some (Some (''$.heap'' @ show_nat h)),
                      InputPath := Some ps\<rparr>))]),
          (''false'',
           Joined [gn, State (PassState (Pass0\<lparr>Next := Some DeferNext,
                      ResultPath := Some (Some (''$.heap'' @ show_nat h)),
                      InputPath := Some pn\<rparr>))])],
       ''$.heap'' @ show_nat h),
      h + 1)"
  using assms by (simp add: Let_def newHeapVariable_def)

lemma plus_dispatch:
  assumes "\<not> isLiteralString l" "\<not> isLiteralString r" "\<not> (isLiteralValue l \<and> isLiteralValue r)"
  shows "\<exists>gs gn.
      stringConcat js h l r =
        (OutputState gs (Value (JsonPath (''$.heap'' @ show_nat h @ ''.str''))), h + 1)
    \<and> numericAdd js (h + 1) l r =
        (OutputState gn (Value (JsonPath (''$.heap'' @ show_nat (h + 1) @ ''.str''))), h + 2)
    \<and> plus js h l r =
        (OutputState
           (SubState ''default''
              [(''default'',
                State (ChoiceState
                  \<lparr>Choices =
                     [(ASL_or [case l of JsonPath p \<Rightarrow> Some (isString p) | LiteralValue _ _ \<Rightarrow> None,
                               case r of JsonPath p \<Rightarrow> Some (isString p) | LiteralValue _ _ \<Rightarrow> None],
                       Label ''true'')],
                   Default = Label ''false''\<rparr>)),
               (''true'',
                Joined [gs, State (PassState (Pass0\<lparr>Next := Some DeferNext,
                           ResultPath := Some (Some (''$.heap'' @ show_nat (h + 2))),
                           InputPath := Some (''$.heap'' @ show_nat h @ ''.str'')\<rparr>))]),
               (''false'',
                Joined [gn, State (PassState (Pass0\<lparr>Next := Some DeferNext,
                           ResultPath := Some (Some (''$.heap'' @ show_nat (h + 2))),
                           InputPath := Some (''$.heap'' @ show_nat (h + 1) @ ''.str'')\<rparr>))])])
           (Value (JsonPath (''$.heap'' @ show_nat (h + 2)))),
         h + 3)"
proof -
  from stringConcat_shape [OF assms(3), of js h] obtain gs where
    gs: "stringConcat js h l r =
        (OutputState gs (Value (JsonPath (''$.heap'' @ show_nat h @ ''.str''))), h + 1)"
    by blast
  from numericAdd_shape [OF assms(3), of js "h + 1"] obtain gn where
    gn: "numericAdd js (h + 1) l r =
        (OutputState gn (Value (JsonPath (''$.heap'' @ show_nat (h + 1) @ ''.str''))), h + 2)"
    by auto
  have cs: "conditionState (h + 2) cond
      (Some (OutputState gs (Value (JsonPath (''$.heap'' @ show_nat h @ ''.str'')))))
      (Some (OutputState gn (Value (JsonPath (''$.heap'' @ show_nat (h + 1) @ ''.str''))))) None =
     ((SubState ''default''
         [(''default'',
           State (ChoiceState \<lparr>Choices = [(cond, Label ''true'')], Default = Label ''false''\<rparr>)),
          (''true'',
           Joined [gs, State (PassState (Pass0\<lparr>Next := Some DeferNext,
                      ResultPath := Some (Some (''$.heap'' @ show_nat (h + 2))),
                      InputPath := Some (''$.heap'' @ show_nat h @ ''.str'')\<rparr>))]),
          (''false'',
           Joined [gn, State (PassState (Pass0\<lparr>Next := Some DeferNext,
                      ResultPath := Some (Some (''$.heap'' @ show_nat (h + 2))),
                      InputPath := Some (''$.heap'' @ show_nat (h + 1) @ ''.str'')\<rparr>))])],
       ''$.heap'' @ show_nat (h + 2)),
      h + 2 + 1)" for cond
    by (rule conditionState_of_paths) (rule heap_str_neq)+
  have "plus js h l r =
      (withOutput (fst (conditionState (h + 2)
          (ASL_or [case l of JsonPath p \<Rightarrow> Some (isString p) | LiteralValue _ _ \<Rightarrow> None,
                   case r of JsonPath p \<Rightarrow> Some (isString p) | LiteralValue _ _ \<Rightarrow> None])
          (Some (OutputState gs (Value (JsonPath (''$.heap'' @ show_nat h @ ''.str'')))))
          (Some (OutputState gn (Value (JsonPath (''$.heap'' @ show_nat (h + 1) @ ''.str'')))))
          None)),
       snd (conditionState (h + 2)
          (ASL_or [case l of JsonPath p \<Rightarrow> Some (isString p) | LiteralValue _ _ \<Rightarrow> None,
                   case r of JsonPath p \<Rightarrow> Some (isString p) | LiteralValue _ _ \<Rightarrow> None])
          (Some (OutputState gs (Value (JsonPath (''$.heap'' @ show_nat h @ ''.str'')))))
          (Some (OutputState gn (Value (JsonPath (''$.heap'' @ show_nat (h + 1) @ ''.str'')))))
          None))"
  proof -
    from assms(3) have nl: "(isLiteralValue l \<and> isLiteralValue r) = False" by simp
    show ?thesis
      unfolding plus_def Let_def gs
      using assms(1,2) gn by (simp add: nl del: conditionState.simps)
  qed
  then have "plus js h l r =
        (OutputState
           (SubState ''default''
              [(''default'',
                State (ChoiceState
                  \<lparr>Choices =
                     [(ASL_or [case l of JsonPath p \<Rightarrow> Some (isString p) | LiteralValue _ _ \<Rightarrow> None,
                               case r of JsonPath p \<Rightarrow> Some (isString p) | LiteralValue _ _ \<Rightarrow> None],
                       Label ''true'')],
                   Default = Label ''false''\<rparr>)),
               (''true'',
                Joined [gs, State (PassState (Pass0\<lparr>Next := Some DeferNext,
                           ResultPath := Some (Some (''$.heap'' @ show_nat (h + 2))),
                           InputPath := Some (''$.heap'' @ show_nat h @ ''.str'')\<rparr>))]),
               (''false'',
                Joined [gn, State (PassState (Pass0\<lparr>Next := Some DeferNext,
                           ResultPath := Some (Some (''$.heap'' @ show_nat (h + 2))),
                           InputPath := Some (''$.heap'' @ show_nat (h + 1) @ ''.str'')\<rparr>))])])
           (Value (JsonPath (''$.heap'' @ show_nat (h + 2)))),
         h + 3)"
    unfolding cs by (simp add: withOutput_def)
  with gs gn show ?thesis by blast
qed


lemma eval_plus_literals:
  assumes "evLeft h = (Bare (Value (LiteralValue lv a)), h1)"
    and "evRight h1 = (Bare (Value (LiteralValue rv b)), h2)"
  shows "\<exists>v. eval_plus js evLeft evRight h = (Bare (Value (LiteralValue v False)), h2 + 1)"
  using assms
  by (simp add: eval_plus_def evalExprToJsonPathOrLiteral_def Let_def
        normalizeOutputToJsonPathOrLiteralValue_def plus_def stringConcat_literals
        numericAdd_literals evalContext_join_def)

text \<open>
  C2, as amended. Two literal operands give a literal and no state: the text of both
  joined when one is a string, the sum of their numbers otherwise. If either operand is a
  literal string the lowering is \<^verbatim>\<open>stringConcat\<close>, which ends in
  \<^verbatim>\<open>States.Format('{}{}', ...)\<close> when the other operand is a path; \<^verbatim>\<open>numericAdd\<close>
  ends in \<^verbatim>\<open>States.MathAdd\<close>. If at least one operand is a JSON path and neither is a
  literal string, the lowering is a \<^verbatim>\<open>Choice\<close> on whether a path operand is a string,
  whose true branch is the string concatenation and whose false branch the numeric add,
  each followed by the assignment of its result to a fresh heap slot.
\<close>

theorem plus_lowering:
  "(l = LiteralValue lv a \<and> r = LiteralValue rv b \<longrightarrow>
      (\<exists>v. plus js h l r = (Bare (Value (LiteralValue v False)), h + 1))
      \<and> stringConcat js h l r =
          (Bare (Value (LiteralValue (JStr (js_String js lv @ js_String js rv)) False)), h + 1)
      \<and> numericAdd js h l r =
          (Bare (Value (LiteralValue (js_add js (js_Number js lv) (js_Number js rv)) False)), h + 1))
   \<and> (isLiteralString l \<or> isLiteralString r \<longrightarrow> plus js h l r = stringConcat js h l r)
   \<and> (isLiteralValue l \<and> isLiteralValue r \<and> \<not> isLiteralString l \<and> \<not> isLiteralString r \<longrightarrow>
        plus js h l r = numericAdd js h l r)
   \<and> (\<not> (isLiteralValue l \<and> isLiteralValue r) \<longrightarrow>
        (\<exists>pre x y. stringConcat js h l r =
           (OutputState
              (Joined (pre @ [State (PassState
                 (Pass0\<lparr>Parameters := Some (ParamAssign ''str.$'' (IntrinsicFormat ''{}{}'' [x, y])),
                         Next := Some DeferNext,
                         ResultPath := Some (Some (''$.heap'' @ show_nat h))\<rparr>))]))
              (Value (JsonPath (''$.heap'' @ show_nat h @ ''.str''))),
            h + 1))
        \<and> (\<exists>pre x y. numericAdd js h l r =
           (OutputState
              (Joined (pre @ [State (PassState
                 (Pass0\<lparr>Parameters := Some (ParamAssign ''str.$'' (IntrinsicMathAdd x y)),
                         Next := Some DeferNext,
                         ResultPath := Some (Some (''$.heap'' @ show_nat h))\<rparr>))]))
              (Value (JsonPath (''$.heap'' @ show_nat h @ ''.str''))),
            h + 1)))
   \<and> (\<not> isLiteralString l \<and> \<not> isLiteralString r \<and> \<not> (isLiteralValue l \<and> isLiteralValue r) \<longrightarrow>
        (\<exists>gs gn.
            stringConcat js h l r =
              (OutputState gs (Value (JsonPath (''$.heap'' @ show_nat h @ ''.str''))), h + 1)
          \<and> numericAdd js (h + 1) l r =
              (OutputState gn (Value (JsonPath (''$.heap'' @ show_nat (h + 1) @ ''.str''))), h + 2)
          \<and> plus js h l r =
              (OutputState
                 (SubState ''default''
                    [(''default'',
                      State (ChoiceState
                        \<lparr>Choices =
                           [(ASL_or [case l of JsonPath p \<Rightarrow> Some (isString p) | LiteralValue _ _ \<Rightarrow> None,
                                     case r of JsonPath p \<Rightarrow> Some (isString p) | LiteralValue _ _ \<Rightarrow> None],
                             Label ''true'')],
                         Default = Label ''false''\<rparr>)),
                     (''true'',
                      Joined [gs, State (PassState (Pass0\<lparr>Next := Some DeferNext,
                                 ResultPath := Some (Some (''$.heap'' @ show_nat (h + 2))),
                                 InputPath := Some (''$.heap'' @ show_nat h @ ''.str'')\<rparr>))]),
                     (''false'',
                      Joined [gn, State (PassState (Pass0\<lparr>Next := Some DeferNext,
                                 ResultPath := Some (Some (''$.heap'' @ show_nat (h + 2))),
                                 InputPath := Some (''$.heap'' @ show_nat (h + 1) @ ''.str'')\<rparr>))])])
                 (Value (JsonPath (''$.heap'' @ show_nat (h + 2)))),
               h + 3)))
   \<and> (evLeft h = (Bare (Value (LiteralValue lv a)), h1)
        \<and> evRight h1 = (Bare (Value (LiteralValue rv b)), h2) \<longrightarrow>
        (\<exists>v. eval_plus js evLeft evRight h = (Bare (Value (LiteralValue v False)), h2 + 1)))"
proof (intro conjI impI)
  assume lit: "l = LiteralValue lv a \<and> r = LiteralValue rv b"
  then show "\<exists>v. plus js h l r = (Bare (Value (LiteralValue v False)), h + 1)"
    by (simp add: plus_def stringConcat_literals numericAdd_literals)
  from lit show "stringConcat js h l r =
          (Bare (Value (LiteralValue (JStr (js_String js lv @ js_String js rv)) False)), h + 1)"
    by (simp add: stringConcat_literals)
  from lit show "numericAdd js h l r =
          (Bare (Value (LiteralValue (js_add js (js_Number js lv) (js_Number js rv)) False)), h + 1)"
    by (simp add: numericAdd_literals)
next
  assume "isLiteralString l \<or> isLiteralString r"
  then show "plus js h l r = stringConcat js h l r" by (simp add: plus_def)
next
  assume "isLiteralValue l \<and> isLiteralValue r \<and> \<not> isLiteralString l \<and> \<not> isLiteralString r"
  then show "plus js h l r = numericAdd js h l r" by (simp add: plus_def)
next
  assume n: "\<not> (isLiteralValue l \<and> isLiteralValue r)"
  show "\<exists>pre x y. stringConcat js h l r =
           (OutputState
              (Joined (pre @ [State (PassState
                 (Pass0\<lparr>Parameters := Some (ParamAssign ''str.$'' (IntrinsicFormat ''{}{}'' [x, y])),
                         Next := Some DeferNext,
                         ResultPath := Some (Some (''$.heap'' @ show_nat h))\<rparr>))]))
              (Value (JsonPath (''$.heap'' @ show_nat h @ ''.str''))),
            h + 1)"
    unfolding stringConcat_shape [OF n] append_assoc [symmetric] by blast
  show "\<exists>pre x y. numericAdd js h l r =
           (OutputState
              (Joined (pre @ [State (PassState
                 (Pass0\<lparr>Parameters := Some (ParamAssign ''str.$'' (IntrinsicMathAdd x y)),
                         Next := Some DeferNext,
                         ResultPath := Some (Some (''$.heap'' @ show_nat h))\<rparr>))]))
              (Value (JsonPath (''$.heap'' @ show_nat h @ ''.str''))),
            h + 1)"
    unfolding numericAdd_shape [OF n] append_assoc [symmetric] by blast
next
  assume "\<not> isLiteralString l \<and> \<not> isLiteralString r \<and> \<not> (isLiteralValue l \<and> isLiteralValue r)"
  then have a: "\<not> isLiteralString l" "\<not> isLiteralString r" "\<not> (isLiteralValue l \<and> isLiteralValue r)"
    by simp_all
  show "\<exists>gs gn.
            stringConcat js h l r =
              (OutputState gs (Value (JsonPath (''$.heap'' @ show_nat h @ ''.str''))), h + 1)
          \<and> numericAdd js (h + 1) l r =
              (OutputState gn (Value (JsonPath (''$.heap'' @ show_nat (h + 1) @ ''.str''))), h + 2)
          \<and> plus js h l r =
              (OutputState
                 (SubState ''default''
                    [(''default'',
                      State (ChoiceState
                        \<lparr>Choices =
                           [(ASL_or [case l of JsonPath p \<Rightarrow> Some (isString p) | LiteralValue _ _ \<Rightarrow> None,
                                     case r of JsonPath p \<Rightarrow> Some (isString p) | LiteralValue _ _ \<Rightarrow> None],
                             Label ''true'')],
                         Default = Label ''false''\<rparr>)),
                     (''true'',
                      Joined [gs, State (PassState (Pass0\<lparr>Next := Some DeferNext,
                                 ResultPath := Some (Some (''$.heap'' @ show_nat (h + 2))),
                                 InputPath := Some (''$.heap'' @ show_nat h @ ''.str'')\<rparr>))]),
                     (''false'',
                      Joined [gn, State (PassState (Pass0\<lparr>Next := Some DeferNext,
                                 ResultPath := Some (Some (''$.heap'' @ show_nat (h + 2))),
                                 InputPath := Some (''$.heap'' @ show_nat (h + 1) @ ''.str'')\<rparr>))])])
                 (Value (JsonPath (''$.heap'' @ show_nat (h + 2)))),
               h + 3)"
    by (rule plus_dispatch [OF a])
next
  assume "evLeft h = (Bare (Value (LiteralValue lv a)), h1)
        \<and> evRight h1 = (Bare (Value (LiteralValue rv b)), h2)"
  then show "\<exists>v. eval_plus js evLeft evRight h = (Bare (Value (LiteralValue v False)), h2 + 1)"
    using eval_plus_literals [of evLeft h lv a h1 evRight rv b h2 js] by simp
qed

theorem plus_lowering_witness:
  "plus int_host 0 (LiteralValue (JNum 1) False) (LiteralValue (JNum 2) False)
     = (Bare (Value (LiteralValue (JNum 3) False)), 1)
   \<and> plus int_host 0 (LiteralValue (JStr ''a'') False) (LiteralValue (JNum 2) False)
     = (Bare (Value (LiteralValue (JStr ''a2'') False)), 1)
   \<and> \<not> isLiteralString (JsonPath ''$.x'') \<and> \<not> isLiteralString (LiteralValue (JNum 1) False)
   \<and> \<not> (isLiteralValue (JsonPath ''$.x'') \<and> isLiteralValue (LiteralValue (JNum 1) False))
   \<and> snd (plus int_host 0 (JsonPath ''$.x'') (LiteralValue (JNum 1) False)) = 3
   \<and> getAslStateOutput (fst (plus int_host 0 (JsonPath ''$.x'') (LiteralValue (JNum 1) False)))
       = Value (JsonPath ''$.heap2'')"
proof -
  have a: "plus int_host 0 (LiteralValue (JNum 1) False) (LiteralValue (JNum 2) False)
     = (Bare (Value (LiteralValue (JNum 3) False)), 1)"
    using plus_lowering [where js = int_host and h = 0 and l = "LiteralValue (JNum 1) False"
        and r = "LiteralValue (JNum 2) False" and lv = "JNum 1" and rv = "JNum 2"
        and a = False and b = False
        and evLeft = "\<lambda>h. (Bare (Value (JsonPath ''$.x'')), h)"
        and evRight = "\<lambda>h. (Bare (Value (JsonPath ''$.x'')), h)" and ?h1.0 = 0 and ?h2.0 = 0]
    by (simp add: int_host_def)
  have b: "plus int_host 0 (LiteralValue (JStr ''a'') False) (LiteralValue (JNum 2) False)
     = (Bare (Value (LiteralValue (JStr ''a2'') False)), 1)"
    using plus_lowering [where js = int_host and h = 0 and l = "LiteralValue (JStr ''a'') False"
        and r = "LiteralValue (JNum 2) False" and lv = "JStr ''a''" and rv = "JNum 2"
        and a = False and b = False
        and evLeft = "\<lambda>h. (Bare (Value (JsonPath ''$.x'')), h)"
        and evRight = "\<lambda>h. (Bare (Value (JsonPath ''$.x'')), h)" and ?h1.0 = 0 and ?h2.0 = 0]
    by (simp add: int_host_def show_int_def show_nat.simps)
  have c: "snd (plus int_host 0 (JsonPath ''$.x'') (LiteralValue (JNum 1) False)) = 3
   \<and> getAslStateOutput (fst (plus int_host 0 (JsonPath ''$.x'') (LiteralValue (JNum 1) False)))
       = Value (JsonPath ''$.heap2'')"
    using plus_lowering [where js = int_host and h = 0 and l = "JsonPath ''$.x''"
        and r = "LiteralValue (JNum 1) False" and lv = JNull and rv = JNull
        and a = False and b = False
        and evLeft = "\<lambda>h. (Bare (Value (JsonPath ''$.x'')), h)"
        and evRight = "\<lambda>h. (Bare (Value (JsonPath ''$.x'')), h)" and ?h1.0 = 0 and ?h2.0 = 0]
    by (auto simp: show_nat.simps)
  from a b c show ?thesis by simp
qed


text \<open>
  C2 as stated fails: for \<^verbatim>\<open>"a" + x\<close> one operand is a JSON path, yet the lowering is
  the string concatenation alone; no \<^verbatim>\<open>Choice\<close> between a concatenation and an
  addition is emitted and no \<^verbatim>\<open>States.MathAdd\<close> occurs.
\<close>

theorem plus_literal_string_counterexample:
  "plus int_host 0 (LiteralValue (JStr ''a'') False) (JsonPath ''$.x'') =
     (OutputState
        (Joined
           [SubState ''checkString''
              [(''checkString'',
                State (ChoiceState \<lparr>Choices = [(Atom ''$.x'' ''IsString'' (JBool True), Label ''assign'')],
                                    Default = Label ''format''\<rparr>)),
               (''format'',
                State (PassState (Pass0\<lparr>Parameters := Some (ParamAssign ''str.$''
                          (IntrinsicJsonToString (Arg (JsonPath ''$.x'')))),
                        Next := Some DeferNext,
                        ResultPath := Some (Some ''$.heap0.str.right'')\<rparr>))),
               (''assign'',
                State (PassState (Pass0\<lparr>InputPath := Some ''$.x'',
                        ResultPath := Some (Some ''$.heap0.str.right.str''),
                        Next := Some DeferNext\<rparr>)))],
            State (PassState (Pass0\<lparr>Parameters := Some (ParamAssign ''str.$''
                      (IntrinsicFormat ''{}{}''
                         [Arg (LiteralValue (JStr ''a'') False),
                          Arg (JsonPath ''$.heap0.str.right.str'')])),
                    Next := Some DeferNext,
                    ResultPath := Some (Some ''$.heap0'')\<rparr>))])
        (Value (JsonPath ''$.heap0.str'')),
      1)
   \<and> results_intrinsics (fst (plus int_host 0 (LiteralValue (JStr ''a'') False) (JsonPath ''$.x''))) =
       [IntrinsicJsonToString (Arg (JsonPath ''$.x'')),
        IntrinsicFormat ''{}{}''
          [Arg (LiteralValue (JStr ''a'') False), Arg (JsonPath ''$.heap0.str.right.str'')]]"
  by (simp add: plus_def stringConcat_def Let_def newHeapVariable_def show_nat.simps
        jsonPathValueToString_def ASLGraph_assignJsonPathOrIntrinsic_def literalValue_def
        int_host_def isString_def Pass0_def)


subsection \<open>Filter as a JSON path\<close>












end
